theory Spec2Isabelle
  imports Main "HOL-Library.AList"
begin

section \<open>The GraphQL service of the repository (class GraphQLService)\<close>

text \<open>
  The source is the TypeScript class \<open>GraphQLService\<close> (the second document of
  \<^verbatim>\<open>src/app/modules/tables/views/TablesView.js\<close>): \<open>execute\<close>, \<open>getSchema\<close>,
  \<open>getDynamicQuerySchema\<close>, \<open>getFilterArgs\<close>, \<open>resolve\<close>, \<open>getData\<close> (with its local
  \<open>parseFields\<close>) and \<open>parseArgs\<close>. Every function below embeds the source function of
  the same name; JavaScript exceptions are values of \<open>error\<close>. The definitions whose
  name ends in \<open>_spec\<close> follow the words of the specification instead and are compared
  with the functions of the source.
\<close>

subsection \<open>Strings and errors\<close>

datatype error =
    TypeError
  | GraphQLError string
  | InvalidPayloadException string "error list"
  | Thrown string

text \<open>\<open>s.startsWith(p)\<close>\<close>

definition startsWith :: "string \<Rightarrow> string \<Rightarrow> bool" where
  "startsWith s p = (take (length p) s = p)"

subsection \<open>getData: the switch that selects the accessor service\<close>

text \<open>
  The services the switch of \<open>getData\<close> constructs. Every constructor receives the same
  options (\<open>knex\<close>, \<open>accountability\<close>, \<open>schema\<close> of the GraphQL service), so only
  the class and, for \<open>ItemsService\<close>, the collection argument are kept.
\<close>

datatype service =
    ActivityService
  | FilesService
  | FoldersService
  | PermissionsService
  | PresetsService
  | RelationsService
  | RevisionsService
  | RolesService
  | SettingsService
  | UsersService
  | WebhooksService
  | ItemsService string

text \<open>
  A JavaScript \<open>switch\<close> over strings whose clause bodies are single assignments to one
  variable and hold no \<open>break\<close>: control enters at the first \<open>case\<close> whose label is
  strictly equal to the value, or at \<open>default\<close> when no label is, and then runs every
  following clause body in source order.
\<close>

datatype 'a switch_clause = Case string 'a | Default 'a

fun clause_body :: "'a switch_clause \<Rightarrow> 'a" where
  "clause_body (Case l b) = b"
| "clause_body (Default b) = b"

fun case_entry :: "string \<Rightarrow> 'a switch_clause list \<Rightarrow> 'a switch_clause list option" where
  "case_entry v [] = None"
| "case_entry v (Case l b # cs) = (if l = v then Some (Case l b # cs) else case_entry v cs)"
| "case_entry v (Default b # cs) = case_entry v cs"

fun default_entry :: "'a switch_clause list \<Rightarrow> 'a switch_clause list" where
  "default_entry [] = []"
| "default_entry (Case l b # cs) = default_entry cs"
| "default_entry (Default b # cs) = Default b # cs"

definition run_switch :: "string \<Rightarrow> 'a switch_clause list \<Rightarrow> 'a option \<Rightarrow> 'a option" where
  "run_switch v cs var =
     foldl (\<lambda>assigned c. Some (clause_body c)) var
       (case case_entry v cs of Some entered \<Rightarrow> entered | None \<Rightarrow> default_entry cs)"

text \<open>
  The clauses of \<open>switch (collection)\<close> in \<open>getData\<close>, in source order (the clause for
  \<open>directus_folders\<close> stands twice in the source; the clauses for
  \<open>directus_collections\<close> and \<open>directus_fields\<close> are commented out there).
\<close>

definition service_clauses :: "string \<Rightarrow> service switch_clause list" where
  "service_clauses collection =
    [Case ''directus_activity'' ActivityService,
     Case ''directus_files'' FilesService,
     Case ''directus_folders'' FoldersService,
     Case ''directus_folders'' FoldersService,
     Case ''directus_permissions'' PermissionsService,
     Case ''directus_presets'' PresetsService,
     Case ''directus_relations'' RelationsService,
     Case ''directus_revisions'' RevisionsService,
     Case ''directus_roles'' RolesService,
     Case ''directus_settings'' SettingsService,
     Case ''directus_users'' UsersService,
     Case ''directus_webhooks'' WebhooksService,
     Default (ItemsService collection)]"

text \<open>The value of \<open>service\<close> after the switch (\<open>let service: ItemsService\<close> starts unassigned).\<close>

definition select_service :: "string \<Rightarrow> service option" where
  "select_service collection = run_switch collection (service_clauses collection) None"

subsection \<open>JavaScript values\<close>

text \<open>
  The values the service handles at run time: decoded arguments, variable bindings, the
  sanitized query and the rows the accessors return. A plain object is the list of its
  own enumerable properties in insertion order; an array is an object whose keys are the
  decimal index strings (\<open>js_array\<close>). Property names are strings, as in JavaScript.
  Inherited members of the prototypes, the \<open>length\<close> of an array and the index and
  \<open>length\<close> properties of a string are not modelled: reading them gives
  \<open>JUndefined\<close>. A number is an integer here; the service computes with none.
\<close>

datatype jsval =
    JUndefined
  | JNull
  | JBool bool
  | JNum int
  | JStr string
  | JArray "(string \<times> jsval) list"
  | JObject "(string \<times> jsval) list"

type_synonym jsobj = "(string \<times> jsval) list"

fun string_of_nat :: "nat \<Rightarrow> string" where
  "string_of_nat n =
     (if n < 10 then [char_of (48 + n)]
      else string_of_nat (n div 10) @ [char_of (48 + n mod 10)])"

declare string_of_nat.simps [simp del]

definition js_array :: "jsval list \<Rightarrow> jsval" where
  "js_array xs = JArray (zip (map string_of_nat [0..<length xs]) xs)"

text \<open>\<open>o[k]\<close> on the property list of an object: the own property, or \<open>undefined\<close>.\<close>

definition own_prop :: "jsobj \<Rightarrow> string \<Rightarrow> jsval" where
  "own_prop ps k = (case map_of ps k of Some v \<Rightarrow> v | None \<Rightarrow> JUndefined)"

text \<open>\<open>v[k]\<close> on any value: a TypeError on \<open>undefined\<close> and \<open>null\<close>.\<close>

fun js_member :: "jsval \<Rightarrow> string \<Rightarrow> error + jsval" where
  "js_member JUndefined k = Inl TypeError"
| "js_member JNull k = Inl TypeError"
| "js_member (JObject ps) k = Inr (own_prop ps k)"
| "js_member (JArray ps) k = Inr (own_prop ps k)"
| "js_member v k = Inr JUndefined"

fun js_truthy :: "jsval \<Rightarrow> bool" where
  "js_truthy JUndefined = False"
| "js_truthy JNull = False"
| "js_truthy (JBool b) = b"
| "js_truthy (JNum n) = (n \<noteq> 0)"
| "js_truthy (JStr s) = (s \<noteq> [])"
| "js_truthy (JArray ps) = True"
| "js_truthy (JObject ps) = True"

text \<open>A property key written from a value that may be \<open>null\<close>: \<open>o[null]\<close> reads \<open>o["null"]\<close>.\<close>

fun js_key :: "string option \<Rightarrow> string" where
  "js_key None = ''null''"
| "js_key (Some k) = k"

subsection \<open>The lodash functions \<open>get\<close>, \<open>set\<close>, \<open>merge\<close> and \<open>mapKeys\<close>\<close>

text \<open>
  \<open>getData\<close> imports these four from lodash; they are modelled from lodash 4 on the values
  above. A path string free of brackets is split at its dots unless it has no dot or is
  itself a key of the object (\<open>castPath\<close>, \<open>isKey\<close>, \<open>stringToPath\<close>); GraphQL names
  hold letters, digits and underscores only, and \<open>parseFields\<close> joins them with \<open>.\<close> and
  \<open>:\<close>, so no path of this service holds a bracket.
\<close>

fun splitDot :: "string \<Rightarrow> string list" where
  "splitDot [] = [[]]"
| "splitDot (c # cs) =
     (if c = CHR ''.'' then [] # splitDot cs
      else (case splitDot cs of w # ws \<Rightarrow> (c # w) # ws | [] \<Rightarrow> [[c]]))"

fun entries :: "jsval \<Rightarrow> jsobj" where
  "entries (JObject ps) = ps"
| "entries (JArray ps) = ps"
| "entries v = []"

fun isObject :: "jsval \<Rightarrow> bool" where
  "isObject (JObject ps) = True"
| "isObject (JArray ps) = True"
| "isObject v = False"

definition castPath :: "string \<Rightarrow> jsval \<Rightarrow> string list" where
  "castPath path object =
     (if CHR ''.'' \<in> set path \<and> path \<notin> fst ` set (entries object) then splitDot path
      else [path])"

text \<open>\<open>baseGet\<close>: the walk stops with \<open>undefined\<close> at the first \<open>null\<close> or \<open>undefined\<close>.\<close>

fun baseGet :: "jsval \<Rightarrow> string list \<Rightarrow> jsval" where
  "baseGet v [] = v"
| "baseGet v (k # ks) =
     (if v = JUndefined \<or> v = JNull then JUndefined else baseGet (own_prop (entries v) k) ks)"

definition lodash_get :: "jsval \<Rightarrow> string \<Rightarrow> jsval" where
  "lodash_get object path = baseGet object (castPath path object)"

text \<open>\<open>isIndex\<close> on a path segment: \<open>0\<close> or digits without a leading zero.\<close>

definition isIndex :: "string \<Rightarrow> bool" where
  "isIndex k = (k \<noteq> [] \<and> list_all (\<lambda>c. c \<in> set ''0123456789'') k \<and> (k = ''0'' \<or> hd k \<noteq> CHR ''0''))"

text \<open>
  \<open>baseSet\<close>: every segment but the last keeps the object found there, or stores a new
  array or object; the last segment stores the value.
\<close>

fun baseSet :: "jsobj \<Rightarrow> string list \<Rightarrow> jsval \<Rightarrow> jsobj" where
  "baseSet nested [] v = nested"
| "baseSet nested [k] v = AList.update k v nested"
| "baseSet nested (k # k' # ks) v =
     AList.update k
       (case own_prop nested k of
          JObject ps \<Rightarrow> JObject (baseSet ps (k' # ks) v)
        | JArray ps \<Rightarrow> JArray (baseSet ps (k' # ks) v)
        | _ \<Rightarrow> (if isIndex k' then JArray (baseSet [] (k' # ks) v)
                else JObject (baseSet [] (k' # ks) v)))
       nested"

fun lodash_set :: "jsval \<Rightarrow> string \<Rightarrow> jsval \<Rightarrow> jsval" where
  "lodash_set (JObject ps) path v = JObject (baseSet ps (castPath path (JObject ps)) v)"
| "lodash_set (JArray ps) path v = JArray (baseSet ps (castPath path (JArray ps)) v)"
| "lodash_set object path v = object"

text \<open>
  \<open>assignMergeValue\<close> leaves the target alone only for an \<open>undefined\<close> source value
  whose key the target has; \<open>baseMerge\<close> walks the source's properties in order and
  merges objects and arrays recursively (\<open>baseMergeDeep\<close>), into the target's value when
  that is an object or array of the matching kind and into a new one otherwise.
\<close>

definition assignMergeValue :: "jsobj \<Rightarrow> string \<Rightarrow> jsval \<Rightarrow> jsobj" where
  "assignMergeValue object k v =
     (if v = JUndefined \<and> k \<in> fst ` set object then object else AList.update k v object)"

fun baseMerge :: "jsobj \<Rightarrow> jsobj \<Rightarrow> jsobj"
  and mergeValue :: "jsval \<Rightarrow> jsval \<Rightarrow> jsval" where
  "baseMerge object [] = object"
| "baseMerge object ((k, srcValue) # source) =
     baseMerge (assignMergeValue object k (mergeValue (own_prop object k) srcValue)) source"
| "mergeValue objValue (JObject src) =
     (case objValue of
        JObject ps \<Rightarrow> JObject (baseMerge ps src)
      | JArray ps \<Rightarrow> JArray (baseMerge ps src)
      | _ \<Rightarrow> JObject (baseMerge [] src))"
| "mergeValue objValue (JArray src) =
     (case objValue of
        JArray ps \<Rightarrow> JArray (baseMerge ps src)
      | _ \<Rightarrow> JArray (baseMerge [] src))"
| "mergeValue objValue JUndefined = JUndefined"
| "mergeValue objValue JNull = JNull"
| "mergeValue objValue (JBool b) = JBool b"
| "mergeValue objValue (JNum n) = JNum n"
| "mergeValue objValue (JStr s) = JStr s"

text \<open>
  \<open>merge(object, source)\<close> with a plain-object source: \<open>Object(object)\<close> is the object
  itself, or a new object for \<open>undefined\<close> and \<open>null\<close> (a primitive's wrapper object is
  modelled as a new object too).
\<close>

fun lodash_merge :: "jsval \<Rightarrow> jsobj \<Rightarrow> jsval" where
  "lodash_merge (JObject ps) source = JObject (baseMerge ps source)"
| "lodash_merge (JArray ps) source = JArray (baseMerge ps source)"
| "lodash_merge object source = JObject (baseMerge [] source)"

definition mapKeys :: "(jsval \<Rightarrow> string \<Rightarrow> string) \<Rightarrow> jsobj \<Rightarrow> jsobj" where
  "mapKeys iteratee object = foldl (\<lambda>result (k, v). AList.update (iteratee v k) v result) [] object"

subsection \<open>The GraphQL document: arguments and selections\<close>

text \<open>
  The value nodes of the graphql AST the service reads. The \<open>value\<close> of an integer, float,
  string or enum literal is a string and that of a boolean literal a boolean; the other
  node kinds have no \<open>value\<close> property. An \<open>ArgumentNode\<close> and an \<open>ObjectFieldNode\<close> are
  both a name and a value node.
\<close>

datatype value_node =
    IntValue string
  | FloatValue string
  | StringValue string
  | BooleanValue bool
  | EnumValue string
  | NullValue
  | Variable string
  | ListValue "value_node list"
  | ObjectValue "(string \<times> value_node) list"

text \<open>\<open>(node as any).value\<close>\<close>

fun node_value :: "value_node \<Rightarrow> jsval" where
  "node_value (IntValue s) = JStr s"
| "node_value (FloatValue s) = JStr s"
| "node_value (StringValue s) = JStr s"
| "node_value (BooleanValue b) = JBool b"
| "node_value (EnumValue s) = JStr s"
| "node_value v = JUndefined"

text \<open>
  \<open>parseArgs\<close>: \<open>parseArgsLoop\<close> is the \<open>for\<close> loop over the arguments with
  \<open>argsObject\<close> as accumulator, \<open>argValue\<close> the value one argument is given and
  \<open>listItems\<close> the inner loop over the nodes of a list value.
\<close>

fun parseArgsLoop :: "jsobj \<Rightarrow> (string \<times> value_node) list \<Rightarrow> jsobj \<Rightarrow> jsobj"
  and argValue :: "jsobj \<Rightarrow> value_node \<Rightarrow> jsval"
  and listItems :: "jsobj \<Rightarrow> value_node list \<Rightarrow> jsval list" where
  "parseArgsLoop variableValues [] argsObject = argsObject"
| "parseArgsLoop variableValues ((name, v) # args) argsObject =
     parseArgsLoop variableValues args (AList.update name (argValue variableValues v) argsObject)"
| "argValue variableValues (ObjectValue fs) = JObject (parseArgsLoop variableValues fs [])"
| "argValue variableValues (Variable x) = own_prop variableValues x"
| "argValue variableValues (ListValue vs) = js_array (listItems variableValues vs)"
| "argValue variableValues (IntValue s) = JStr s"
| "argValue variableValues (FloatValue s) = JStr s"
| "argValue variableValues (StringValue s) = JStr s"
| "argValue variableValues (BooleanValue b) = JBool b"
| "argValue variableValues (EnumValue s) = JStr s"
| "argValue variableValues NullValue = JUndefined"
| "listItems variableValues [] = []"
| "listItems variableValues (ObjectValue fs # vs) =
     JObject (parseArgsLoop variableValues fs []) # listItems variableValues vs"
| "listItems variableValues (v # vs) = node_value v # listItems variableValues vs"

definition parseArgs :: "(string \<times> value_node) list \<Rightarrow> jsobj \<Rightarrow> jsobj" where
  "parseArgs args variableValues = parseArgsLoop variableValues args []"

text \<open>
  The selection nodes: a field (name, arguments, optional selection set), an inline
  fragment (optional type condition, selection set) and a fragment spread. A field
  without arguments has the empty list.
\<close>

datatype selection =
    Field string "(string \<times> value_node) list" "selection list option"
  | InlineFragment "string option" "selection list"
  | FragmentSpread string

subsection \<open>getData: planning the selection (parseFields)\<close>

text \<open>
  \<open>sanitizeQuery\<close> is imported from \<open>../utils/sanitize-query\<close> and is not among the
  sources: it is a parameter here (with the service's accountability fixed), returning the
  sanitized query object or the error it throws.
\<close>

type_synonym sanitizer = "jsobj \<Rightarrow> error + jsobj"

text \<open>
  The block of \<open>parseFields\<close> that records the arguments of a field under
  \<open>query.deep\<close>:
  \<^verbatim>\<open>if (!query.deep) query.deep = {};
  const args = this.parseArgs(selection.arguments, variableValues);
  set(query.deep, current,
      merge(get(query.deep, current),
            mapKeys(sanitizeQuery(args, this.accountability), (value, key) => `_${key}`)));\<close>
\<close>

text \<open>The iteratee \<^verbatim>\<open>(value, key) => `_${key}`\<close> of \<open>mapKeys\<close>.\<close>

definition deep_key :: "jsval \<Rightarrow> string \<Rightarrow> string" where
  "deep_key value key = ''_'' @ key"

definition recordDeep ::
  "sanitizer \<Rightarrow> jsobj \<Rightarrow> string \<Rightarrow> (string \<times> value_node) list \<Rightarrow> jsobj \<Rightarrow> error + jsobj" where
  "recordDeep sanitizeQuery variableValues current arguments query =
     (let query1 = (if js_truthy (own_prop query ''deep'') then query
                    else AList.update ''deep'' (JObject []) query);
          args = parseArgs arguments variableValues
      in case sanitizeQuery args of
           Inl e \<Rightarrow> Inl e
         | Inr sanitized \<Rightarrow>
             (let deep = own_prop query1 ''deep''
              in Inr (AList.update ''deep''
                        (lodash_set deep current
                           (lodash_merge (lodash_get deep current)
                              (mapKeys deep_key sanitized)))
                        query1)))"

text \<open>The template literal \<open>${parent}\<close> of an optional string.\<close>

fun template_string :: "string option \<Rightarrow> string" where
  "template_string None = ''undefined''"
| "template_string (Some p) = p"

text \<open>
  \<open>parseFields(selections, parent)\<close>, with the \<open>query\<close> it mutates passed through: the
  result is the list \<open>fields\<close> and the query after the call. \<open>if (parent)\<close> is false for
  \<open>undefined\<close> and for the empty string.
\<close>

fun parseFields ::
  "sanitizer \<Rightarrow> jsobj \<Rightarrow> selection list \<Rightarrow> string option \<Rightarrow> jsobj \<Rightarrow> error + (string list \<times> jsobj)" where
  "parseFields sanitizeQuery variableValues [] parent query = Inr ([], query)"
| "parseFields sanitizeQuery variableValues (FragmentSpread n # rest) parent query =
     parseFields sanitizeQuery variableValues rest parent query"
| "parseFields sanitizeQuery variableValues (InlineFragment None sels # rest) parent query =
     Inl TypeError"
| "parseFields sanitizeQuery variableValues (InlineFragment (Some t) sels # rest) parent query =
     (if startsWith t ''__'' then parseFields sanitizeQuery variableValues rest parent query
      else
        (case parseFields sanitizeQuery variableValues sels
                (Some (template_string parent @ '':'' @ t)) query of
           Inl e \<Rightarrow> Inl e
         | Inr (children, query1) \<Rightarrow>
             (case parseFields sanitizeQuery variableValues rest parent query1 of
                Inl e \<Rightarrow> Inl e
              | Inr (later, query2) \<Rightarrow> Inr (children @ later, query2))))"
| "parseFields sanitizeQuery variableValues (Field name arguments selectionSet # rest) parent query =
     (if startsWith name ''__'' then parseFields sanitizeQuery variableValues rest parent query
      else
        (let current = (case parent of
                          Some p \<Rightarrow> if p \<noteq> [] then p @ ''.'' @ name else name
                        | None \<Rightarrow> name)
         in case (case selectionSet of
                    Some sels \<Rightarrow> parseFields sanitizeQuery variableValues sels (Some current) query
                  | None \<Rightarrow> Inr ([current], query)) of
              Inl e \<Rightarrow> Inl e
            | Inr (pushed, query1) \<Rightarrow>
                (case (if arguments \<noteq> []
                       then recordDeep sanitizeQuery variableValues current arguments query1
                       else Inr query1) of
                   Inl e \<Rightarrow> Inl e
                 | Inr query2 \<Rightarrow>
                     (case parseFields sanitizeQuery variableValues rest parent query2 of
                        Inl e \<Rightarrow> Inl e
                      | Inr (later, query3) \<Rightarrow> Inr (pushed @ later, query3)))))"

text \<open>
  The plan as the specification words it (4.5 SelectionPlanner), to be compared with
  \<open>parseFields\<close>. A plain field selection contributes \<open><prefix>.<name>\<close>, the root
  call (no prefix, or an empty one) omitting the prefix.
\<close>

definition dotted :: "string option \<Rightarrow> string \<Rightarrow> string" where
  "dotted prefix name =
     (case prefix of Some p \<Rightarrow> if p \<noteq> [] then p @ ''.'' @ name else name | None \<Rightarrow> name)"

text \<open>
  The paths of the plan in the specification's words: a field without a selection set, a
  leaf, contributes its dotted path; a selection with a nested selection set contributes
  the paths of its selections only, under its own path as prefix, an inline fragment
  under \<open><prefix>:<typeName>\<close> (an absent prefix written as the template literal
  writes it); a field or fragment whose name starts with \<open>__\<close> is skipped with all it
  selects. A fragment spread and an inline fragment without a type condition, for which
  the specification names no path, contribute nothing.
\<close>

fun plan_paths_spec :: "selection list \<Rightarrow> string option \<Rightarrow> string list" where
  "plan_paths_spec [] prefix = []"
| "plan_paths_spec (FragmentSpread n # rest) prefix = plan_paths_spec rest prefix"
| "plan_paths_spec (InlineFragment None sels # rest) prefix = plan_paths_spec rest prefix"
| "plan_paths_spec (InlineFragment (Some t) sels # rest) prefix =
     (if startsWith t ''__'' then []
      else plan_paths_spec sels (Some (template_string prefix @ '':'' @ t)))
     @ plan_paths_spec rest prefix"
| "plan_paths_spec (Field name arguments None # rest) prefix =
     (if startsWith name ''__'' then [] else [dotted prefix name])
     @ plan_paths_spec rest prefix"
| "plan_paths_spec (Field name arguments (Some sels) # rest) prefix =
     (if startsWith name ''__'' then [] else plan_paths_spec sels (Some (dotted prefix name)))
     @ plan_paths_spec rest prefix"

text \<open>
  The deep entries of the plan in the specification's words: every field that carries
  arguments, leaf or not, with its dotted path and its arguments. They are listed in the
  order in which they are recorded: the fields a selection set selects before the field
  that carries the selection set, fields of one selection set in document order.
\<close>

fun plan_deep_spec ::
  "selection list \<Rightarrow> string option \<Rightarrow> (string \<times> (string \<times> value_node) list) list" where
  "plan_deep_spec [] prefix = []"
| "plan_deep_spec (FragmentSpread n # rest) prefix = plan_deep_spec rest prefix"
| "plan_deep_spec (InlineFragment None sels # rest) prefix = plan_deep_spec rest prefix"
| "plan_deep_spec (InlineFragment (Some t) sels # rest) prefix =
     (if startsWith t ''__'' then []
      else plan_deep_spec sels (Some (template_string prefix @ '':'' @ t)))
     @ plan_deep_spec rest prefix"
| "plan_deep_spec (Field name arguments None # rest) prefix =
     (if startsWith name ''__'' \<or> arguments = [] then [] else [(dotted prefix name, arguments)])
     @ plan_deep_spec rest prefix"
| "plan_deep_spec (Field name arguments (Some sels) # rest) prefix =
     (if startsWith name ''__'' then []
      else plan_deep_spec sels (Some (dotted prefix name))
           @ (if arguments = [] then [] else [(dotted prefix name, arguments)]))
     @ plan_deep_spec rest prefix"

text \<open>
  The recording block of \<open>parseFields\<close> run for a list of paths and arguments in turn, up
  to the first error.
\<close>

fun recordDeepAll ::
  "sanitizer \<Rightarrow> jsobj \<Rightarrow> (string \<times> (string \<times> value_node) list) list \<Rightarrow> jsobj \<Rightarrow> error + jsobj" where
  "recordDeepAll sanitizeQuery variableValues [] query = Inr query"
| "recordDeepAll sanitizeQuery variableValues ((current, arguments) # rest) query =
     (case recordDeep sanitizeQuery variableValues current arguments query of
        Inl e \<Rightarrow> Inl e
      | Inr query1 \<Rightarrow> recordDeepAll sanitizeQuery variableValues rest query1)"

subsection \<open>getData and resolve\<close>

text \<open>
  What \<open>getData\<close> does last is one call of the selected service, \<open>readSingleton\<close> or
  \<open>readByQuery\<close>, with the query and the options object \<open>{ stripNonRequested: false }\<close>;
  the call is the result of the model.
\<close>

record read_options =
  stripNonRequested :: bool

datatype service_call =
    ReadSingleton service jsobj read_options
  | ReadByQuery service jsobj read_options

text \<open>
  The two sources of collection metadata. The lookup
  \<^verbatim>\<open>this.knex.select('singleton').from('directus_collections').where({ collection }).first()\<close>
  is a parameter giving the error of a failed query, no row, or the truth value of the
  row's \<open>singleton\<close>. The table \<open>systemCollectionRows\<close> is imported from
  \<open>../database/system-data/collections\<close> and is a parameter too.
\<close>

record collection_meta =
  meta_collection :: string
  meta_singleton :: bool

definition getData ::
  "sanitizer \<Rightarrow> (string \<Rightarrow> error + bool option) \<Rightarrow> collection_meta list \<Rightarrow>
   string \<Rightarrow> selection list \<Rightarrow> (string \<times> value_node) list \<Rightarrow> jsobj \<Rightarrow> error + service_call" where
  "getData sanitizeQuery knexFirst systemCollectionRows collection selections argsArray variableValues =
     (case sanitizeQuery (parseArgs argsArray variableValues) of
        Inl e \<Rightarrow> Inl e
      | Inr query \<Rightarrow>
          (case parseFields sanitizeQuery variableValues selections None query of
             Inl e \<Rightarrow> Inl e
           | Inr (paths, query1) \<Rightarrow>
               (let query2 = AList.update ''fields'' (js_array (map JStr paths)) query1;
                    service = select_service collection
                in case knexFirst collection of
                     Inl e \<Rightarrow> Inl e
                   | Inr row \<Rightarrow>
                       (let collectionInfo =
                              (case row of
                                 Some s \<Rightarrow> Some s
                               | None \<Rightarrow>
                                   map_option meta_singleton
                                     (List.find (\<lambda>collectionMeta. meta_collection collectionMeta = collection)
                                        systemCollectionRows))
                        in case service of
                             None \<Rightarrow> Inl TypeError
                           | Some svc \<Rightarrow>
                               if collectionInfo = Some True
                               then Inr (ReadSingleton svc query2 \<lparr>stripNonRequested = False\<rparr>)
                               else Inr (ReadByQuery svc query2 \<lparr>stripNonRequested = False\<rparr>)))))"

datatype scope = Items | System

text \<open>
  \<open>resolve(info, scope)\<close>, from \<open>info.fieldName\<close>, \<open>info.fieldNodes\<close> and
  \<open>info.variableValues\<close>: \<open>None\<close> is the \<open>null\<close> returned without any call when the
  first field node has no selection set.
\<close>

definition resolve ::
  "sanitizer \<Rightarrow> (string \<Rightarrow> error + bool option) \<Rightarrow> collection_meta list \<Rightarrow>
   scope \<Rightarrow> string \<Rightarrow> selection list \<Rightarrow> jsobj \<Rightarrow> error + service_call option" where
  "resolve sanitizeQuery knexFirst systemCollectionRows scp fieldName fieldNodes variableValues =
     (let collection = (if scp = System then ''directus_'' @ fieldName else fieldName)
      in case fieldNodes of
           Field name arguments (Some selections) # others \<Rightarrow>
             (case getData sanitizeQuery knexFirst systemCollectionRows collection selections
                     arguments variableValues of
                Inl e \<Rightarrow> Inl e
              | Inr call \<Rightarrow> Inr (Some call))
         | _ \<Rightarrow> Inr None)"

subsection \<open>The schema overview\<close>

text \<open>
  \<open>SchemaOverview\<close>, \<open>Collection\<close>, \<open>Field\<close> and \<open>Relation\<close> are imported from
  \<open>../types\<close>; the records hold the properties the service reads. \<open>schema.collections\<close> is
  the list of its entries (key and collection, \<open>Object.entries\<close>) and \<open>cfields\<close> the list
  \<open>Object.values(collection.fields)\<close>.
\<close>

record field_info =
  field :: string
  ftype :: string
  fnote :: "string option"

record collection_info =
  collection :: string
  cnote :: "string option"
  cfields :: "field_info list"
  primary :: string
  singleton :: bool

record relation_info =
  many_collection :: string
  many_field :: string
  one_collection :: "string option"
  one_field :: "string option"
  one_collection_field :: "string option"
  one_allowed_collections :: "string list option"

record schema_overview =
  collections :: "(string \<times> collection_info) list"
  relations :: "relation_info list"

text \<open>
  \<open>getRelationType\<close> (\<open>../utils/get-relation-type\<close>) and \<open>getGraphQLType\<close>
  (\<open>../utils/get-graphql-type\<close>) are not among the sources; the compiler functions take
  them as parameters: a classifier of a relation seen from a collection and field
  (\<open>None\<close> is its \<open>null\<close>), and the map from a field's declared kind to a GraphQL type.
\<close>

datatype relation_type = M2O | O2M | M2A

type_synonym classifier = "relation_info \<Rightarrow> string \<Rightarrow> string \<Rightarrow> relation_type option"

text \<open>
  Modelled from the spec: \<open>getRelationType\<close>, which is missing from the sources, as the
  spec's \<open>classifyRelation\<close> words it: many-to-any when the pair is the relation's many
  side and the relation declares a discriminator field and a set of allowed collections,
  many-to-one when the pair is the many side otherwise, one-to-many when it is the one
  side. It instantiates the classifier parameter at concrete inputs only.
\<close>

definition getRelationType_spec :: classifier where
  "getRelationType_spec relation c f =
     (if many_collection relation = c \<and> many_field relation = f then
        (if one_collection_field relation \<noteq> None \<and> one_allowed_collections relation \<noteq> None
         then Some M2A else Some M2O)
      else if one_collection relation = Some c \<and> one_field relation = Some f then Some O2M
      else None)"

subsection \<open>The compiled types\<close>

text \<open>
  GraphQL types. An object type and a collection's filter input type are built with a
  deferred field map (\<open>fields: () => ...\<close>) and refer to each other through the tables
  \<open>graphqlSchema\<close> and \<open>filterTypes\<close>, so a type is written by its name here and its
  field map is the function that evaluates the deferred map: \<open>objectFields\<close> for
  \<open>GraphQLObjectType name\<close>, \<open>filterFields\<close> for \<open>GraphQLInputObjectType name None\<close>. An
  operator input type carries its field map. A union carries the array \<open>types\<close> it was
  built from (an element is \<open>None\<close> where the code pushed \<open>undefined\<close>) and the
  discriminator field \<open>one_collection_field\<close> its \<open>resolveType\<close> reads.
\<close>

datatype gql_type =
    GraphQLString
  | GraphQLInt
  | GraphQLBoolean
  | GraphQLID
  | GraphQLScalarType string
  | GraphQLList gql_type
  | GraphQLObjectType string
  | GraphQLInputObjectType string "(string \<times> gql_type) list option"
  | GraphQLUnionType string "gql_type option list" "string option"

text \<open>
  A field or argument configuration; \<open>None\<close> is a property that was never set or holds
  \<open>undefined\<close>.
\<close>

record field_config =
  gtype :: "gql_type option"
  gargs :: "(string \<times> gql_type option) list option"
  description :: "string option"

record schema_section =
  stype :: gql_type
  sargs :: "(string \<times> gql_type option) list"

text \<open>The property \<open>args\<close> of the service.\<close>

definition this_args :: "(string \<times> gql_type option) list" where
  "this_args =
     [(''sort'', Some (GraphQLList GraphQLString)),
      (''limit'', Some GraphQLInt),
      (''offset'', Some GraphQLInt),
      (''page'', Some GraphQLInt),
      (''search'', Some GraphQLString)]"

text \<open>
  \<open>filterTypes[k]\<close> for the table \<open>getFilterArgs(schema)\<close> returns: one input type named
  \<open>${collectionName}_filter\<close> per key of \<open>schema.collections\<close>, and no GraphQL type
  otherwise (\<open>undefined\<close>, or for a name inherited from \<open>Object.prototype\<close> the
  function found there).
\<close>

definition filterTypes :: "schema_overview \<Rightarrow> string \<Rightarrow> gql_type option" where
  "filterTypes schema k =
     (if k \<in> fst ` set (collections schema)
      then Some (GraphQLInputObjectType (k @ ''_filter'') None) else None)"

text \<open>\<open>relations.find(...)\<close> of both compilers: the first relation with the pair on either side.\<close>

definition relationForField :: "relation_info list \<Rightarrow> string \<Rightarrow> string \<Rightarrow> relation_info option" where
  "relationForField rels c f =
     List.find (\<lambda>relation.
        (many_collection relation = c \<and> many_field relation = f) \<or>
        (one_collection relation = Some c \<and> one_field relation = Some f)) rels"

subsection \<open>getFilterArgs\<close>

text \<open>The operator input type of a plain field, \<open>${collectionName}_${field.field}_filter_operators\<close>.\<close>

definition filter_operators :: "string \<Rightarrow> string \<Rightarrow> gql_type \<Rightarrow> gql_type" where
  "filter_operators collectionName fieldName fieldType =
     GraphQLInputObjectType (collectionName @ ''_'' @ fieldName @ ''_filter_operators'')
       (Some [(''_eq'', fieldType),
              (''_neq'', fieldType),
              (''_contains'', fieldType),
              (''_ncontains'', fieldType),
              (''_in'', GraphQLList fieldType),
              (''_nin'', GraphQLList fieldType),
              (''_gt'', fieldType),
              (''_gte'', fieldType),
              (''_lt'', fieldType),
              (''_lte'', fieldType),
              (''_null'', GraphQLBoolean),
              (''_nnull'', GraphQLBoolean),
              (''_empty'', GraphQLBoolean),
              (''_nempty'', GraphQLBoolean)])"

text \<open>
  The loop of the deferred field map of \<open>filterTypes[collectionName]\<close> over the fields
  of the collection, \<open>filterFields\<close> as accumulator; a member is the \<open>type\<close> of its
  configuration, \<open>None\<close> when \<open>filterTypes\<close> has no entry for the related collection.
\<close>

fun filterFieldsLoop ::
  "classifier \<Rightarrow> (string \<Rightarrow> gql_type) \<Rightarrow> schema_overview \<Rightarrow> string \<Rightarrow> collection_info \<Rightarrow>
   field_info list \<Rightarrow> (string \<times> gql_type option) list \<Rightarrow> (string \<times> gql_type option) list" where
  "filterFieldsLoop getRelationType getGraphQLType schema collectionName c [] filterFields =
     filterFields"
| "filterFieldsLoop getRelationType getGraphQLType schema collectionName c (f # fs) filterFields =
     filterFieldsLoop getRelationType getGraphQLType schema collectionName c fs
       (if startsWith (field f) ''__'' then filterFields
        else
          (case relationForField (relations schema) collectionName (field f) of
             Some relation \<Rightarrow>
               (case getRelationType relation collectionName (field f) of
                  Some M2O \<Rightarrow>
                    AList.update (field f) (filterTypes schema (js_key (one_collection relation)))
                      filterFields
                | Some O2M \<Rightarrow>
                    AList.update (field f) (filterTypes schema (many_collection relation))
                      filterFields
                | _ \<Rightarrow> filterFields)
           | None \<Rightarrow>
               AList.update (field f)
                 (Some (filter_operators collectionName (field f)
                          (if primary c = field f then GraphQLID else getGraphQLType (ftype f))))
                 filterFields))"

text \<open>The deferred field map of the filter type of one entry of \<open>schema.collections\<close>.\<close>

definition filterFields ::
  "classifier \<Rightarrow> (string \<Rightarrow> gql_type) \<Rightarrow> schema_overview \<Rightarrow> string \<times> collection_info \<Rightarrow>
   (string \<times> gql_type option) list" where
  "filterFields getRelationType getGraphQLType schema entry =
     filterFieldsLoop getRelationType getGraphQLType schema (fst entry) (snd entry)
       (cfields (snd entry))
       [(''_and'', Some (GraphQLList (GraphQLInputObjectType (fst entry @ ''_filter'') None))),
        (''_or'', Some (GraphQLList (GraphQLInputObjectType (fst entry @ ''_filter'') None)))]"

subsection \<open>getDynamicQuerySchema\<close>

text \<open>
  The table \<open>graphqlSchema\<close> after the first loop: one section per collection with at least
  one field, under the key \<open>collection.collection\<close>. A section holds the object type and
  the arguments; its \<open>resolve\<close> is the function \<open>resolve\<close> above, whose result the
  resolver also stores in \<open>context.data\<close>. The table stands for the own properties of
  the object; one name is outside this model: assigning under \<open>__proto__\<close> stores no
  property but makes the section the prototype of the table, and what the second loop
  then does to that section depends on how \<open>cloneDeep\<close> of lodash, which is not among
  the sources, copies a prototype. The properties of the object types below are stated
  for schemas without a collection of that name.
\<close>

definition graphqlSchema :: "schema_overview \<Rightarrow> (string \<times> schema_section) list" where
  "graphqlSchema schema =
     foldl (\<lambda>table c.
        if cfields c = [] then table
        else AList.update (collection c)
               \<lparr>stype = GraphQLObjectType (collection c),
                sargs = this_args @ [(''filter'', filterTypes schema (collection c))]\<rparr> table)
       [] (map snd (collections schema))"

text \<open>
  The table is a plain object (\<open>const graphqlSchema: any = {}\<close>), so a name that is no
  section of it still reads a member inherited from \<open>Object.prototype\<close> when it is one
  of these.
\<close>

definition object_prototype_members :: "string list" where
  "object_prototype_members =
     [''constructor'', ''__defineGetter__'', ''__defineSetter__'', ''hasOwnProperty'',
      ''__lookupGetter__'', ''__lookupSetter__'', ''isPrototypeOf'', ''propertyIsEnumerable'',
      ''toString'', ''valueOf'', ''__proto__'', ''toLocaleString'']"

text \<open>
  \<open>graphqlSchema[k].type\<close>: the type of the section \<open>k\<close>; \<open>undefined\<close> when \<open>k\<close> is
  no section but names an inherited member (which has no \<open>type\<close>); a TypeError when
  \<open>graphqlSchema[k]\<close> is \<open>undefined\<close>.
\<close>

definition sectionType :: "(string \<times> schema_section) list \<Rightarrow> string \<Rightarrow> error + gql_type option" where
  "sectionType table k =
     (case map_of table k of
        Some s \<Rightarrow> Inr (Some (stype s))
      | None \<Rightarrow> if k \<in> set object_prototype_members then Inr None else Inl TypeError)"

text \<open>
  \<open>new GraphQLList(type)\<close> of the graphql package asserts that its argument is a type
  and throws an Error on \<open>undefined\<close>.
\<close>

fun newGraphQLList :: "gql_type option \<Rightarrow> error + gql_type" where
  "newGraphQLList None = Inl (Thrown ''Expected undefined to be a GraphQL type.'')"
| "newGraphQLList (Some t) = Inr (GraphQLList t)"

text \<open>The loop that collects the member types of a union.\<close>

fun unionTypes :: "(string \<times> schema_section) list \<Rightarrow> string list \<Rightarrow> error + gql_type option list" where
  "unionTypes table [] = Inr []"
| "unionTypes table (relatedCollection # rest) =
     (case sectionType table relatedCollection of
        Inl e \<Rightarrow> Inl e
      | Inr relatedType \<Rightarrow>
          (case unionTypes table rest of
             Inl e \<Rightarrow> Inl e
           | Inr types \<Rightarrow> Inr (relatedType # types)))"

text \<open>
  The configuration the deferred field map of a collection's object type stores for one
  field, before its description is set: \<open>Inr None\<close> when no branch stores one. The
  relation is looked up in \<open>this.schema.relations\<close>, the tables are those of the
  \<open>schema\<close> argument.
\<close>

definition fieldConfig ::
  "classifier \<Rightarrow> (string \<Rightarrow> gql_type) \<Rightarrow> schema_overview \<Rightarrow> schema_overview \<Rightarrow>
   collection_info \<Rightarrow> field_info \<Rightarrow> error + field_config option" where
  "fieldConfig getRelationType getGraphQLType this_schema schema c f =
     (case relationForField (relations this_schema) (collection c) (field f) of
        Some relation \<Rightarrow>
          (case getRelationType relation (collection c) (field f) of
             Some M2O \<Rightarrow>
               (case sectionType (graphqlSchema schema) (js_key (one_collection relation)) of
                  Inl e \<Rightarrow> Inl e
                | Inr relatedType \<Rightarrow>
                    Inr (Some \<lparr>gtype = relatedType, gargs = None, description = None\<rparr>))
           | Some O2M \<Rightarrow>
               (case sectionType (graphqlSchema schema) (many_collection relation) of
                  Inl e \<Rightarrow> Inl e
                | Inr relatedType \<Rightarrow>
                    (case newGraphQLList relatedType of
                       Inl e \<Rightarrow> Inl e
                     | Inr listType \<Rightarrow>
                         Inr (Some \<lparr>gtype = Some listType,
                                    gargs = Some (this_args @
                                       [(''filter'', filterTypes schema (many_collection relation))]),
                                    description = None\<rparr>)))
           | Some M2A \<Rightarrow>
               (case one_allowed_collections relation of
                  None \<Rightarrow> Inl TypeError
                | Some relatedCollections \<Rightarrow>
                    (case unionTypes (graphqlSchema schema) relatedCollections of
                       Inl e \<Rightarrow> Inl e
                     | Inr types \<Rightarrow>
                         Inr (Some \<lparr>gtype = Some (GraphQLUnionType (collection c @ ''__'' @ field f)
                                                    types (one_collection_field relation)),
                                    gargs = None, description = None\<rparr>)))
           | None \<Rightarrow> Inr None)
      | None \<Rightarrow>
          Inr (Some \<lparr>gtype = Some (if primary c = field f then GraphQLID
                                     else getGraphQLType (ftype f)),
                     gargs = None, description = None\<rparr>))"

text \<open>
  The warning \<open>logger.warn\<close> receives for a field whose name starts with \<open>__\<close>: the
  message names the field and the collection.
\<close>

datatype warning = FieldUnavailable string string

text \<open>
  The loop of the deferred field map of a collection's object type, with \<open>fieldsObject\<close>
  and the warnings logged so far as accumulator. The last statement of the loop body,
  \<open>fieldsObject[field.field].description = field.note\<close>, is a TypeError when no
  configuration is stored under the field's name.
\<close>

fun objectFieldsLoop ::
  "classifier \<Rightarrow> (string \<Rightarrow> gql_type) \<Rightarrow> schema_overview \<Rightarrow> schema_overview \<Rightarrow> collection_info \<Rightarrow>
   field_info list \<Rightarrow> (string \<times> field_config) list \<times> warning list \<Rightarrow>
   error + ((string \<times> field_config) list \<times> warning list)" where
  "objectFieldsLoop getRelationType getGraphQLType this_schema schema c [] acc = Inr acc"
| "objectFieldsLoop getRelationType getGraphQLType this_schema schema c (f # fs) (fieldsObject, logged) =
     (if startsWith (field f) ''__''
      then objectFieldsLoop getRelationType getGraphQLType this_schema schema c fs
             (fieldsObject, logged @ [FieldUnavailable (field f) (collection c)])
      else
        (case fieldConfig getRelationType getGraphQLType this_schema schema c f of
           Inl e \<Rightarrow> Inl e
         | Inr stored \<Rightarrow>
             (let fieldsObject1 = (case stored of
                                     Some config \<Rightarrow> AList.update (field f) config fieldsObject
                                   | None \<Rightarrow> fieldsObject)
              in case map_of fieldsObject1 (field f) of
                   None \<Rightarrow> Inl TypeError
                 | Some config \<Rightarrow>
                     objectFieldsLoop getRelationType getGraphQLType this_schema schema c fs
                       (AList.update (field f) (config\<lparr>description := fnote f\<rparr>) fieldsObject1,
                        logged))))"

definition objectFields ::
  "classifier \<Rightarrow> (string \<Rightarrow> gql_type) \<Rightarrow> schema_overview \<Rightarrow> schema_overview \<Rightarrow> collection_info \<Rightarrow>
   error + ((string \<times> field_config) list \<times> warning list)" where
  "objectFields getRelationType getGraphQLType this_schema schema c =
     objectFieldsLoop getRelationType getGraphQLType this_schema schema c (cfields c) ([], [])"

text \<open>
  \<open>schemaWithLists\<close>: the copy of \<open>graphqlSchema\<close> in which the type of every collection
  that has a field and is no singleton is wrapped in a list (the table has a section for
  every such collection, so the lookup in the loop finds one).
\<close>

definition schemaWithLists :: "schema_overview \<Rightarrow> (string \<times> schema_section) list" where
  "schemaWithLists schema =
     foldl (\<lambda>table c.
        if cfields c = [] \<or> singleton c then table
        else (case map_of table (collection c) of
                Some s \<Rightarrow> AList.update (collection c) (s\<lparr>stype := GraphQLList (stype s)\<rparr>) table
              | None \<Rightarrow> table))
       (graphqlSchema schema) (map snd (collections schema))"

text \<open>
  \<open>queryBase.fields\<close>: in the system scope the sections whose key starts with
  \<open>directus_\<close>, under \<open>key.substring(9)\<close>; in the items scope every other section
  (the guard on an empty table changes nothing: both loops then run zero times).
\<close>

definition queryFields :: "scope \<Rightarrow> (string \<times> schema_section) list \<Rightarrow> (string \<times> schema_section) list" where
  "queryFields scp table =
     foldl (\<lambda>fs (key, s).
        if scp = System then
          (if startsWith key ''directus_'' then AList.update (drop 9 key) s fs else fs)
        else
          (if startsWith key ''directus_'' then fs else AList.update key s fs))
       [] table"

subsection \<open>The union's resolveType\<close>

text \<open>
  \<open>info.path\<close> is the engine's response path, a chain of \<open>{ prev, key }\<close> from the current
  field back to the root field; a key is a response name or a list index.
\<close>

datatype path_key = PathName string | PathIndex nat

datatype path = Path "path option" path_key

fun key_string :: "path_key \<Rightarrow> string" where
  "key_string (PathName s) = s"
| "key_string (PathIndex n) = string_of_nat n"

text \<open>
  \<^verbatim>\<open>while (currentPath.prev) { path.push(currentPath.key); currentPath = currentPath.prev; }\<close>
\<close>

fun pathKeys :: "path \<Rightarrow> path_key list" where
  "pathKeys (Path None k) = []"
| "pathKeys (Path (Some prev) k) = k # pathKeys prev"

text \<open>\<open>xs.slice(1, -1)\<close>\<close>

definition slice_1_minus1 :: "'a list \<Rightarrow> 'a list" where
  "slice_1_minus1 xs = take (length xs - 2) (drop 1 xs)"

text \<open>\<open>for (const pathPart of path) parent = parent[pathPart]\<close>\<close>

fun walk :: "jsval \<Rightarrow> string list \<Rightarrow> error + jsval" where
  "walk parent [] = Inr parent"
| "walk parent (pathPart # rest) =
     (case js_member parent pathPart of Inl e \<Rightarrow> Inl e | Inr v \<Rightarrow> walk v rest)"

text \<open>The \<open>name\<close> of a type (a list type has none).\<close>

fun type_name :: "gql_type \<Rightarrow> jsval" where
  "type_name GraphQLString = JStr ''String''"
| "type_name GraphQLInt = JStr ''Int''"
| "type_name GraphQLBoolean = JStr ''Boolean''"
| "type_name GraphQLID = JStr ''ID''"
| "type_name (GraphQLScalarType n) = JStr n"
| "type_name (GraphQLList t) = JUndefined"
| "type_name (GraphQLObjectType n) = JStr n"
| "type_name (GraphQLInputObjectType n fs) = JStr n"
| "type_name (GraphQLUnionType n ts d) = JStr n"

text \<open>
  \<open>types.find((GraphQLType) => GraphQLType.name === type)\<close>: reading \<open>name\<close> of an
  \<open>undefined\<close> element is a TypeError.
\<close>

fun findType :: "jsval \<Rightarrow> gql_type option list \<Rightarrow> error + gql_type option" where
  "findType type [] = Inr None"
| "findType type (None # rest) = Inl TypeError"
| "findType type (Some GraphQLType # rest) =
     (if type_name GraphQLType = type then Inr (Some GraphQLType) else findType type rest)"

text \<open>
  \<open>resolveType(value, context, info)\<close> of the union built for a many-to-any field, from the
  member list \<open>types\<close> and the relation's \<open>one_collection_field\<close> it closes over,
  \<open>context.data\<close> and \<open>info.path\<close>; \<open>Inr None\<close> is the \<open>undefined\<close> of \<open>types.find\<close>.
\<close>

definition resolveType ::
  "gql_type option list \<Rightarrow> string option \<Rightarrow> jsval \<Rightarrow> path \<Rightarrow> error + gql_type option" where
  "resolveType types one_collection_field_of_relation context_data info_path =
     (let path = slice_1_minus1 (rev (pathKeys info_path))
      in case walk context_data (map key_string path) of
           Inl e \<Rightarrow> Inl e
         | Inr parent \<Rightarrow>
             (case js_member parent (js_key one_collection_field_of_relation) of
                Inl e \<Rightarrow> Inl e
              | Inr type \<Rightarrow> findType type types))"

subsection \<open>execute and getSchema\<close>

text \<open>
  The functions of the graphql package that \<open>execute\<close> and \<open>getDynamicQuerySchema\<close> call are
  parameters: the constructor \<open>new GraphQLSchema(...)\<close> (it evaluates the deferred field
  maps and throws what they throw), \<open>validate\<close> with the specified rules (it returns the
  list of validation errors of the document, or throws, as it does when the schema itself
  is invalid), the engine's \<open>execute\<close>, and \<open>formatError\<close>. The engine runs the
  resolvers, so the calls of the accessor services it makes are threaded through it as a
  log. \<open>reduceSchema\<close> (\<open>../utils/reduce-schema\<close>) is a parameter too.
\<close>

record execution_result =
  data :: jsval
  errors :: "error list option"

record formatted_execution_result =
  fdata :: jsval
  ferrors :: "jsval list option"

record ('g, 'd) graphql =
  newGraphQLSchema :: "(string \<times> schema_section) list \<Rightarrow> error + 'g"
  validate :: "'g \<Rightarrow> 'd \<Rightarrow> error + error list"
  engine_execute ::
    "'g \<Rightarrow> 'd \<Rightarrow> jsobj \<Rightarrow> string option \<Rightarrow> service_call list \<Rightarrow>
     (error + execution_result) \<times> service_call list"
  formatError :: "error \<Rightarrow> jsval"

definition getDynamicQuerySchema ::
  "('g, 'd) graphql \<Rightarrow> schema_overview \<Rightarrow> scope \<Rightarrow> error + 'g" where
  "getDynamicQuerySchema lib schema scp =
     newGraphQLSchema lib (queryFields scp (schemaWithLists schema))"

definition getSchema ::
  "('g, 'd) graphql \<Rightarrow> (schema_overview \<Rightarrow> string list \<Rightarrow> schema_overview) \<Rightarrow>
   bool \<Rightarrow> schema_overview \<Rightarrow> scope \<Rightarrow> error + 'g" where
  "getSchema lib reduceSchema admin this_schema scp =
     getDynamicQuerySchema lib
       (if admin then this_schema else reduceSchema this_schema [''read'']) scp"

text \<open>
  \<open>execute({ document, variables, operationName }, scope)\<close>; the second component is
  the log of accessor calls after the request, \<open>calls\<close> being the log before it. Only the
  engine's call stands in a \<open>try\<close>: what \<open>getSchema\<close> or \<open>validate\<close> throws leaves
  \<open>execute\<close> as it is.
\<close>

definition execute ::
  "('g, 'd) graphql \<Rightarrow> (schema_overview \<Rightarrow> string list \<Rightarrow> schema_overview) \<Rightarrow>
   bool \<Rightarrow> schema_overview \<Rightarrow> 'd \<Rightarrow> jsobj \<Rightarrow> string option \<Rightarrow> scope \<Rightarrow> service_call list \<Rightarrow>
   (error + formatted_execution_result) \<times> service_call list" where
  "execute lib reduceSchema admin this_schema document variables operationName scp calls =
     (case getSchema lib reduceSchema admin this_schema scp of
        Inl e \<Rightarrow> (Inl e, calls)
      | Inr schema \<Rightarrow>
          (case validate lib schema document of
             Inl e \<Rightarrow> (Inl e, calls)
           | Inr validationErrors \<Rightarrow>
               if length validationErrors > 0
               then (Inl (InvalidPayloadException ''GraphQL validation error.'' validationErrors), calls)
               else
                 (case engine_execute lib schema document variables operationName calls of
                    (Inl err, calls1) \<Rightarrow>
                      (Inl (InvalidPayloadException ''GraphQL execution error.'' [err]), calls1)
                  | (Inr result, calls1) \<Rightarrow>
                      (Inr \<lparr>fdata = data result,
                            ferrors = map_option (map (formatError lib)) (errors result)\<rparr>,
                       calls1))))"

subsection \<open>An example schema\<close>

text \<open>
  A schema with a many-to-one and one-to-many relation (\<open>articles.author\<close> and
  \<open>authors.articles\<close>), a many-to-any relation (\<open>sections.item\<close>, discriminated by
  \<open>sections.collection\<close>) and a field with a reserved name; and a schema whose only
  collection has a field named \<open>_and\<close>. The properties below are instantiated on them.
\<close>

definition example_getGraphQLType :: "string \<Rightarrow> gql_type" where
  "example_getGraphQLType t =
     (if t = ''integer'' then GraphQLInt
      else if t = ''boolean'' then GraphQLBoolean
      else GraphQLString)"

definition example_authors :: collection_info where
  "example_authors =
     \<lparr>collection = ''authors'', cnote = None,
      cfields = [\<lparr>field = ''id'', ftype = ''integer'', fnote = None\<rparr>,
                 \<lparr>field = ''name'', ftype = ''string'', fnote = Some ''Full name''\<rparr>,
                 \<lparr>field = ''__secret'', ftype = ''string'', fnote = None\<rparr>,
                 \<lparr>field = ''articles'', ftype = ''alias'', fnote = None\<rparr>],
      primary = ''id'', singleton = False\<rparr>"

definition example_articles :: collection_info where
  "example_articles =
     \<lparr>collection = ''articles'', cnote = None,
      cfields = [\<lparr>field = ''id'', ftype = ''integer'', fnote = None\<rparr>,
                 \<lparr>field = ''author'', ftype = ''integer'', fnote = None\<rparr>],
      primary = ''id'', singleton = False\<rparr>"

definition example_sections :: collection_info where
  "example_sections =
     \<lparr>collection = ''sections'', cnote = None,
      cfields = [\<lparr>field = ''id'', ftype = ''integer'', fnote = None\<rparr>,
                 \<lparr>field = ''collection'', ftype = ''string'', fnote = None\<rparr>,
                 \<lparr>field = ''item'', ftype = ''string'', fnote = None\<rparr>],
      primary = ''id'', singleton = False\<rparr>"

definition example_headings :: collection_info where
  "example_headings =
     \<lparr>collection = ''headings'', cnote = None,
      cfields = [\<lparr>field = ''id'', ftype = ''integer'', fnote = None\<rparr>],
      primary = ''id'', singleton = False\<rparr>"

definition example_paragraphs :: collection_info where
  "example_paragraphs =
     \<lparr>collection = ''paragraphs'', cnote = None,
      cfields = [\<lparr>field = ''id'', ftype = ''integer'', fnote = None\<rparr>],
      primary = ''id'', singleton = False\<rparr>"

definition example_author_relation :: relation_info where
  "example_author_relation =
     \<lparr>many_collection = ''articles'', many_field = ''author'',
      one_collection = Some ''authors'', one_field = Some ''articles'',
      one_collection_field = None, one_allowed_collections = None\<rparr>"

definition example_item_relation :: relation_info where
  "example_item_relation =
     \<lparr>many_collection = ''sections'', many_field = ''item'',
      one_collection = None, one_field = None,
      one_collection_field = Some ''collection'',
      one_allowed_collections = Some [''headings'', ''paragraphs'']\<rparr>"

definition example_schema :: schema_overview where
  "example_schema =
     \<lparr>collections = [(''authors'', example_authors), (''articles'', example_articles),
                      (''sections'', example_sections), (''headings'', example_headings),
                      (''paragraphs'', example_paragraphs)],
      relations = [example_author_relation, example_item_relation]\<rparr>"

definition example_tags :: collection_info where
  "example_tags =
     \<lparr>collection = ''tags'', cnote = None,
      cfields = [\<lparr>field = ''id'', ftype = ''integer'', fnote = None\<rparr>,
                 \<lparr>field = ''_and'', ftype = ''string'', fnote = None\<rparr>],
      primary = ''id'', singleton = False\<rparr>"

definition example_tags_schema :: schema_overview where
  "example_tags_schema = \<lparr>collections = [(''tags'', example_tags)], relations = []\<rparr>"

subsection \<open>Example collaborators\<close>

text \<open>
  Instances of the parameters, for the instantiated properties: a graphql package whose
  validation throws on a query type without fields and otherwise accepts one document, and
  whose engine logs one accessor call, a sanitizer
  that turns the limit \<open>"5"\<close> into the number 5 and keeps every other option, and a
  table of system collections.
\<close>

definition example_graphql :: "((string \<times> schema_section) list, string) graphql" where
  "example_graphql =
     \<lparr>newGraphQLSchema = (\<lambda>queryBase. Inr queryBase),
      validate = (\<lambda>schema document.
         if schema = [] then Inl (Thrown ''Type Query must define one or more fields.'')
         else if document = ''{ authors { id } }'' then Inr []
         else Inr [GraphQLError ''Cannot query field.'']),
      engine_execute = (\<lambda>schema document variables operationName calls.
         (Inr \<lparr>data = JNull, errors = None\<rparr>,
          calls @ [ReadByQuery (ItemsService ''authors'') [] \<lparr>stripNonRequested = False\<rparr>])),
      formatError = (\<lambda>e. JNull)\<rparr>"

definition example_sanitizeQuery :: sanitizer where
  "example_sanitizeQuery rawQuery =
     Inr (map (\<lambda>(k, v). (k, if k = ''limit'' \<and> v = JStr ''5'' then JNum 5 else v)) rawQuery)"

definition example_systemCollectionRows :: "collection_meta list" where
  "example_systemCollectionRows =
     [\<lparr>meta_collection = ''directus_users'', meta_singleton = False\<rparr>,
      \<lparr>meta_collection = ''directus_settings'', meta_singleton = True\<rparr>]"

subsection \<open>Selections without reserved fields\<close>

text \<open>
  The selection list with every field whose name starts with \<open>__\<close> removed, at every
  depth (used to state that such a field adds nothing to the plan).
\<close>

fun strip_reserved :: "selection list \<Rightarrow> selection list" where
  "strip_reserved [] = []"
| "strip_reserved (Field name arguments None # rest) =
     (if startsWith name ''__'' then strip_reserved rest
      else Field name arguments None # strip_reserved rest)"
| "strip_reserved (Field name arguments (Some sels) # rest) =
     (if startsWith name ''__'' then strip_reserved rest
      else Field name arguments (Some (strip_reserved sels)) # strip_reserved rest)"
| "strip_reserved (InlineFragment typeCondition sels # rest) =
     InlineFragment typeCondition (strip_reserved sels) # strip_reserved rest"
| "strip_reserved (FragmentSpread n # rest) = FragmentSpread n # strip_reserved rest"

section \<open>Properties\<close>

subsection \<open>The accessor switch\<close>

lemma run_switch_last:
  "run_switch v (cs @ [Default d]) var = Some d"
proof -
  have entry: "\<exists>pre. (case case_entry v (cs @ [Default d]) of Some entered \<Rightarrow> entered
                      | None \<Rightarrow> default_entry (cs @ [Default d])) = pre @ [Default d]"
  proof (cases "case_entry v (cs @ [Default d])")
    case None
    have "\<exists>pre. default_entry (cs @ [Default d]) = pre @ [Default d]"
    proof (induction cs)
      case Nil
      show ?case by simp
    next
      case (Cons c cs)
      then show ?case by (cases c) auto
    qed
    with None show ?thesis by simp
  next
    case (Some entered)
    have "\<And>e. case_entry v (cs @ [Default d]) = Some e \<Longrightarrow> \<exists>pre. e = pre @ [Default d]"
    proof (induction cs)
      case Nil
      then show ?case by simp
    next
      case (Cons c cs)
      then show ?case by (cases c) (auto split: if_splits)
    qed
    with Some show ?thesis by simp
  qed
  then obtain pre where
    "(case case_entry v (cs @ [Default d]) of Some entered \<Rightarrow> entered
      | None \<Rightarrow> default_entry (cs @ [Default d])) = pre @ [Default d]" ..
  then show ?thesis by (simp add: run_switch_def)
qed

lemma select_service_generic: "select_service c = Some (ItemsService c)"
proof -
  have "\<exists>cs. service_clauses c = cs @ [Default (ItemsService c)]"
    unfolding service_clauses_def
    by (metis append_Cons append_Nil)
  then show ?thesis
    unfolding select_service_def by (auto simp: run_switch_last)
qed

text \<open>
  C1 (the code at the failing input). For the collection \<open>directus_activity\<close> the switch
  of \<open>getData\<close> enters at the first clause, which assigns the activity service, and, no
  clause ending in \<open>break\<close>, runs every later clause too: the value of \<open>service\<close> after
  the switch is the generic item service for \<open>directus_activity\<close>, not the specialized
  activity service the clause names.
\<close>

theorem select_service_directus_activity:
  "select_service ''directus_activity'' = Some (ItemsService ''directus_activity'')
   \<and> select_service ''directus_activity'' \<noteq> Some ActivityService"
  by (simp add: select_service_def service_clauses_def run_switch_def)

subsection \<open>The filter input types (getFilterArgs)\<close>

lemmas example_defs =
  example_getGraphQLType_def example_authors_def example_articles_def example_sections_def
  example_headings_def example_paragraphs_def example_author_relation_def
  example_item_relation_def example_schema_def example_tags_def example_tags_schema_def


lemma filterFieldsLoop_other:
  "k \<notin> field ` set fs \<Longrightarrow>
   map_of (filterFieldsLoop grt ggt schema cn c fs acc) k = map_of acc k"
proof (induction fs arbitrary: acc)
  case Nil
  show ?case by simp
next
  case (Cons f fs)
  then have "k \<noteq> field f" and "k \<notin> field ` set fs" by auto
  then show ?case
    using Cons.IH
    by (simp add: update_conv' split: option.splits relation_type.splits)
qed

lemma filterFieldsLoop_field:
  "distinct (map field fs) \<Longrightarrow> f \<in> set fs \<Longrightarrow>
   map_of (filterFieldsLoop grt ggt schema cn c fs acc) (field f) =
   map_of (filterFieldsLoop grt ggt schema cn c [f] acc) (field f)"
proof (induction fs arbitrary: acc)
  case Nil
  then show ?case by simp
next
  case (Cons g fs)
  show ?case
  proof (cases "f = g")
    case True
    with Cons.prems have "field f \<notin> field ` set fs" by auto
    then show ?thesis
      using True by (simp add: filterFieldsLoop_other)
  next
    case False
    with Cons.prems have in_fs: "f \<in> set fs" and d: "distinct (map field fs)"
      and "field g \<notin> field ` set fs" by auto
    then have ne: "field f \<noteq> field g" by (metis imageI)
    have "map_of (filterFieldsLoop grt ggt schema cn c (g # fs) acc) (field f) =
          map_of (filterFieldsLoop grt ggt schema cn c [f]
                    (filterFieldsLoop grt ggt schema cn c [g] acc)) (field f)"
      using Cons.IH[OF d in_fs] by simp
    also have "\<dots> = map_of (filterFieldsLoop grt ggt schema cn c [f] acc) (field f)"
      using ne by (simp add: update_conv' split: option.splits relation_type.splits)
    finally show ?thesis .
  qed
qed

lemma filterFieldsLoop_keys:
  "fst ` set (filterFieldsLoop grt ggt schema cn c fs acc) \<subseteq>
   fst ` set acc \<union> {k \<in> field ` set fs. \<not> startsWith k ''__''}"
proof (induction fs arbitrary: acc)
  case Nil
  show ?case by simp
next
  case (Cons f fs)
  show ?case
    apply (simp only: filterFieldsLoop.simps)
    apply (rule subset_trans[OF Cons.IH])
    apply (auto simp: dom_update split: option.splits relation_type.splits if_splits)
    done
qed

text \<open>
  C2 (counterexample). In the example schema \<open>authors.articles\<close> is classified
  one-to-many, and the filter input type of \<open>authors\<close> has a member \<open>articles\<close>, whose type
  is the filter input type of \<open>articles\<close>: the \<open>o2m\<close> branch of \<open>getFilterArgs\<close> stores
  one.
\<close>

theorem filterFields_one_to_many_member:
  "getRelationType_spec example_author_relation ''authors'' ''articles'' = Some O2M
   \<and> map_of (filterFields getRelationType_spec example_getGraphQLType example_schema
               (''authors'', example_authors)) ''articles''
     = Some (Some (GraphQLInputObjectType ''articles_filter'' None))"
  by (simp add: example_defs getRelationType_spec_def filterFields_def relationForField_def
      startsWith_def filterTypes_def update_conv')

text \<open>
  C2 (amended). For a field of a collection (field names distinct, the name not starting
  with \<open>__\<close>) that has a relation: classified many-to-one, the filter input type has a
  member for it typed by the entry of \<open>filterTypes\<close> for the relation's one collection;
  classified one-to-many, a member typed by the entry for the relation's many collection;
  classified many-to-any or not classified, no member under its name (unless the field is
  itself named \<open>_and\<close> or \<open>_or\<close>). The entry of \<open>filterTypes\<close> for a key of
  \<open>schema.collections\<close> is that collection's filter input type.
\<close>

theorem filterFields_relation_members:
  assumes "distinct (map field (cfields c))"
    and "f \<in> set (cfields c)"
    and "\<not> startsWith (field f) ''__''"
    and "relationForField (relations schema) cn (field f) = Some r"
  shows "(getRelationType r cn (field f) = Some M2O \<longrightarrow>
            map_of (filterFields getRelationType getGraphQLType schema (cn, c)) (field f)
            = Some (filterTypes schema (js_key (one_collection r))))
       \<and> (getRelationType r cn (field f) = Some O2M \<longrightarrow>
            map_of (filterFields getRelationType getGraphQLType schema (cn, c)) (field f)
            = Some (filterTypes schema (many_collection r)))
       \<and> ((getRelationType r cn (field f) = Some M2A \<or> getRelationType r cn (field f) = None)
            \<and> field f \<noteq> ''_and'' \<and> field f \<noteq> ''_or'' \<longrightarrow>
            map_of (filterFields getRelationType getGraphQLType schema (cn, c)) (field f) = None)
       \<and> (\<forall>k \<in> fst ` set (collections schema).
            filterTypes schema k = Some (GraphQLInputObjectType (k @ ''_filter'') None))"
proof -
  let ?init = "[(''_and'', Some (GraphQLList (GraphQLInputObjectType (cn @ ''_filter'') None))),
                (''_or'', Some (GraphQLList (GraphQLInputObjectType (cn @ ''_filter'') None)))]"
  have one: "map_of (filterFields getRelationType getGraphQLType schema (cn, c)) (field f) =
             map_of (filterFieldsLoop getRelationType getGraphQLType schema cn c [f] ?init) (field f)"
    unfolding filterFields_def using assms(1,2) by (simp add: filterFieldsLoop_field)
  show ?thesis
    unfolding one using assms(3,4)
    by (auto simp: update_conv' filterTypes_def)
qed

theorem filterFields_relation_members_witness:
  "map_of (filterFields getRelationType_spec example_getGraphQLType example_schema
             (''articles'', example_articles)) ''author''
     = Some (Some (GraphQLInputObjectType ''authors_filter'' None))
   \<and> map_of (filterFields getRelationType_spec example_getGraphQLType example_schema
             (''authors'', example_authors)) ''articles''
     = Some (Some (GraphQLInputObjectType ''articles_filter'' None))
   \<and> map_of (filterFields getRelationType_spec example_getGraphQLType example_schema
             (''sections'', example_sections)) ''item'' = None"
proof -
  have m2o: "getRelationType_spec example_author_relation ''articles'' ''author'' = Some M2O"
    and o2m: "getRelationType_spec example_author_relation ''authors'' ''articles'' = Some O2M"
    and m2a: "getRelationType_spec example_item_relation ''sections'' ''item'' = Some M2A"
    by (simp_all add: example_defs getRelationType_spec_def)
  have keys: "filterTypes example_schema ''authors'' = Some (GraphQLInputObjectType ''authors_filter'' None)"
    "filterTypes example_schema ''articles'' = Some (GraphQLInputObjectType ''articles_filter'' None)"
    by (simp_all add: example_defs filterTypes_def)
  have a: "map_of (filterFields getRelationType_spec example_getGraphQLType example_schema
             (''articles'', example_articles)) ''author''
           = Some (filterTypes example_schema ''authors'')"
    using filterFields_relation_members
      [of example_articles "\<lparr>field = ''author'', ftype = ''integer'', fnote = None\<rparr>"
          example_schema "''articles''" example_author_relation
          getRelationType_spec example_getGraphQLType] m2o
    by (simp add: example_defs relationForField_def startsWith_def)
  have b: "map_of (filterFields getRelationType_spec example_getGraphQLType example_schema
             (''authors'', example_authors)) ''articles''
           = Some (filterTypes example_schema ''articles'')"
    using filterFields_relation_members
      [of example_authors "\<lparr>field = ''articles'', ftype = ''alias'', fnote = None\<rparr>"
          example_schema "''authors''" example_author_relation
          getRelationType_spec example_getGraphQLType] o2m
    by (simp add: example_defs relationForField_def startsWith_def)
  have c: "map_of (filterFields getRelationType_spec example_getGraphQLType example_schema
             (''sections'', example_sections)) ''item'' = None"
    using filterFields_relation_members
      [of example_sections "\<lparr>field = ''item'', ftype = ''string'', fnote = None\<rparr>"
          example_schema "''sections''" example_item_relation
          getRelationType_spec example_getGraphQLType] m2a
    by (simp add: example_defs relationForField_def startsWith_def)
  from a b c keys show ?thesis by simp
qed

text \<open>
  C8 (the code at the failing input). The collection \<open>tags\<close> has a plain field named
  \<open>_and\<close>. The deferred field map of its filter input type starts with the members
  \<open>_and\<close> and \<open>_or\<close>, lists of the collection's filter input type, and the loop over
  the fields then stores the operator type of the field \<open>_and\<close> under the same name: the
  member \<open>_and\<close> of the compiled filter type is that operator type, and not a list of the
  collection's filter input type.
\<close>

theorem filterFields_and_overridden:
  "map_of (filterFields getRelationType_spec example_getGraphQLType example_tags_schema
             (''tags'', example_tags)) ''_and''
     = Some (Some (filter_operators ''tags'' ''_and'' GraphQLString))
   \<and> Some (Some (filter_operators ''tags'' ''_and'' GraphQLString))
     \<noteq> Some (Some (GraphQLList (GraphQLInputObjectType ''tags_filter'' None)))"
  by (simp add: example_defs filterFields_def relationForField_def startsWith_def
      filter_operators_def update_conv')

text \<open>
  The members the loop does not overwrite are as built. For every field of a collection
  (field names distinct) whose name does not
  start with \<open>__\<close> and that has no relation, the collection's filter input type has a
  member of the operator input type named after collection and field, whose members are
  exactly \<open>_eq\<close>, \<open>_neq\<close>, \<open>_contains\<close>, \<open>_ncontains\<close>, \<open>_gt\<close>, \<open>_gte\<close>,
  \<open>_lt\<close>, \<open>_lte\<close> of the field's type (the identifier type for the primary field),
  \<open>_in\<close>, \<open>_nin\<close> of a list of it, and \<open>_null\<close>, \<open>_nnull\<close>, \<open>_empty\<close>, \<open>_nempty\<close> of a
  boolean. A collection with no field named \<open>_and\<close> (\<open>_or\<close>) has the member \<open>_and\<close>
  (\<open>_or\<close>), a list of the collection's own filter input type.
\<close>

theorem filterFields_operators:
  assumes "distinct (map field (cfields c))"
  shows "(\<forall>f \<in> set (cfields c).
            \<not> startsWith (field f) ''__'' \<and> relationForField (relations schema) cn (field f) = None \<longrightarrow>
            (\<exists>fieldType.
               fieldType = (if primary c = field f then GraphQLID else getGraphQLType (ftype f)) \<and>
               map_of (filterFields getRelationType getGraphQLType schema (cn, c)) (field f)
               = Some (Some (GraphQLInputObjectType (cn @ ''_'' @ field f @ ''_filter_operators'')
                   (Some [(''_eq'', fieldType),
                          (''_neq'', fieldType),
                          (''_contains'', fieldType),
                          (''_ncontains'', fieldType),
                          (''_in'', GraphQLList fieldType),
                          (''_nin'', GraphQLList fieldType),
                          (''_gt'', fieldType),
                          (''_gte'', fieldType),
                          (''_lt'', fieldType),
                          (''_lte'', fieldType),
                          (''_null'', GraphQLBoolean),
                          (''_nnull'', GraphQLBoolean),
                          (''_empty'', GraphQLBoolean),
                          (''_nempty'', GraphQLBoolean)])))))
       \<and> (''_and'' \<notin> field ` set (cfields c) \<longrightarrow>
            map_of (filterFields getRelationType getGraphQLType schema (cn, c)) ''_and''
            = Some (Some (GraphQLList (GraphQLInputObjectType (cn @ ''_filter'') None))))
       \<and> (''_or'' \<notin> field ` set (cfields c) \<longrightarrow>
            map_of (filterFields getRelationType getGraphQLType schema (cn, c)) ''_or''
            = Some (Some (GraphQLList (GraphQLInputObjectType (cn @ ''_filter'') None))))
       \<and> (cn \<in> fst ` set (collections schema) \<longrightarrow>
            filterTypes schema cn = Some (GraphQLInputObjectType (cn @ ''_filter'') None))"
proof (intro conjI ballI impI)
  fix f
  assume f: "f \<in> set (cfields c)"
    and h: "\<not> startsWith (field f) ''__'' \<and> relationForField (relations schema) cn (field f) = None"
  let ?init = "[(''_and'', Some (GraphQLList (GraphQLInputObjectType (cn @ ''_filter'') None))),
                (''_or'', Some (GraphQLList (GraphQLInputObjectType (cn @ ''_filter'') None)))]"
  have one: "map_of (filterFields getRelationType getGraphQLType schema (cn, c)) (field f) =
             map_of (filterFieldsLoop getRelationType getGraphQLType schema cn c [f] ?init) (field f)"
    unfolding filterFields_def using assms f by (simp add: filterFieldsLoop_field)
  show "\<exists>fieldType.
          fieldType = (if primary c = field f then GraphQLID else getGraphQLType (ftype f)) \<and>
          map_of (filterFields getRelationType getGraphQLType schema (cn, c)) (field f)
          = Some (Some (GraphQLInputObjectType (cn @ ''_'' @ field f @ ''_filter_operators'')
              (Some [(''_eq'', fieldType),
                     (''_neq'', fieldType),
                     (''_contains'', fieldType),
                     (''_ncontains'', fieldType),
                     (''_in'', GraphQLList fieldType),
                     (''_nin'', GraphQLList fieldType),
                     (''_gt'', fieldType),
                     (''_gte'', fieldType),
                     (''_lt'', fieldType),
                     (''_lte'', fieldType),
                     (''_null'', GraphQLBoolean),
                     (''_nnull'', GraphQLBoolean),
                     (''_empty'', GraphQLBoolean),
                     (''_nempty'', GraphQLBoolean)])))"
    unfolding one using h by (simp add: update_conv' filter_operators_def)
next
  assume "''_and'' \<notin> field ` set (cfields c)"
  then show "map_of (filterFields getRelationType getGraphQLType schema (cn, c)) ''_and''
             = Some (Some (GraphQLList (GraphQLInputObjectType (cn @ ''_filter'') None)))"
    by (simp add: filterFields_def filterFieldsLoop_other)
next
  assume "''_or'' \<notin> field ` set (cfields c)"
  then show "map_of (filterFields getRelationType getGraphQLType schema (cn, c)) ''_or''
             = Some (Some (GraphQLList (GraphQLInputObjectType (cn @ ''_filter'') None)))"
    by (simp add: filterFields_def filterFieldsLoop_other)
next
  assume "cn \<in> fst ` set (collections schema)"
  then show "filterTypes schema cn = Some (GraphQLInputObjectType (cn @ ''_filter'') None)"
    by (simp add: filterTypes_def)
qed

theorem filterFields_operators_witness:
  "map_of (filterFields getRelationType_spec example_getGraphQLType example_schema
             (''authors'', example_authors)) ''name''
     = Some (Some (GraphQLInputObjectType ''authors_name_filter_operators''
         (Some [(''_eq'', GraphQLString),
                (''_neq'', GraphQLString),
                (''_contains'', GraphQLString),
                (''_ncontains'', GraphQLString),
                (''_in'', GraphQLList GraphQLString),
                (''_nin'', GraphQLList GraphQLString),
                (''_gt'', GraphQLString),
                (''_gte'', GraphQLString),
                (''_lt'', GraphQLString),
                (''_lte'', GraphQLString),
                (''_null'', GraphQLBoolean),
                (''_nnull'', GraphQLBoolean),
                (''_empty'', GraphQLBoolean),
                (''_nempty'', GraphQLBoolean)])))
   \<and> map_of (filterFields getRelationType_spec example_getGraphQLType example_schema
             (''authors'', example_authors)) ''_and''
     = Some (Some (GraphQLList (GraphQLInputObjectType ''authors_filter'' None)))
   \<and> map_of (filterFields getRelationType_spec example_getGraphQLType example_schema
             (''authors'', example_authors)) ''_or''
     = Some (Some (GraphQLList (GraphQLInputObjectType ''authors_filter'' None)))
   \<and> filterTypes example_schema ''authors'' = Some (GraphQLInputObjectType ''authors_filter'' None)"
proof -
  have d: "distinct (map field (cfields example_authors))"
    by (simp add: example_defs)
  note T = filterFields_operators[OF d, where schema = example_schema and cn = "''authors''"
      and getRelationType = getRelationType_spec and getGraphQLType = example_getGraphQLType]
  have f: "\<lparr>field = ''name'', ftype = ''string'', fnote = Some ''Full name''\<rparr> \<in> set (cfields example_authors)"
    by (simp add: example_defs)
  have h: "\<not> startsWith ''name'' ''__'' \<and> relationForField (relations example_schema) ''authors'' ''name'' = None"
    by (simp add: example_defs relationForField_def startsWith_def)
  have n: "''_and'' \<notin> field ` set (cfields example_authors)"
    "''_or'' \<notin> field ` set (cfields example_authors)"
    "''authors'' \<in> fst ` set (collections example_schema)"
    "primary example_authors \<noteq> ''name''"
    "example_getGraphQLType ''string'' = GraphQLString"
    by (simp_all add: example_defs)
  from T[THEN conjunct1, rule_format, OF f] h n
  have 1: "map_of (filterFields getRelationType_spec example_getGraphQLType example_schema
             (''authors'', example_authors)) ''name''
     = Some (Some (GraphQLInputObjectType ''authors_name_filter_operators''
         (Some [(''_eq'', GraphQLString),
                (''_neq'', GraphQLString),
                (''_contains'', GraphQLString),
                (''_ncontains'', GraphQLString),
                (''_in'', GraphQLList GraphQLString),
                (''_nin'', GraphQLList GraphQLString),
                (''_gt'', GraphQLString),
                (''_gte'', GraphQLString),
                (''_lt'', GraphQLString),
                (''_lte'', GraphQLString),
                (''_null'', GraphQLBoolean),
                (''_nnull'', GraphQLBoolean),
                (''_empty'', GraphQLBoolean),
                (''_nempty'', GraphQLBoolean)])))"
    by simp
  from T n have 2: "map_of (filterFields getRelationType_spec example_getGraphQLType example_schema
             (''authors'', example_authors)) ''_and''
     = Some (Some (GraphQLList (GraphQLInputObjectType ''authors_filter'' None)))"
   and 3: "map_of (filterFields getRelationType_spec example_getGraphQLType example_schema
             (''authors'', example_authors)) ''_or''
     = Some (Some (GraphQLList (GraphQLInputObjectType ''authors_filter'' None)))"
   and 4: "filterTypes example_schema ''authors'' = Some (GraphQLInputObjectType ''authors_filter'' None)"
    by simp_all
  from 1 2 3 4 show ?thesis by simp
qed

subsection \<open>The object types (getDynamicQuerySchema)\<close>

lemma graphqlSchema_fold:
  assumes "map_of (foldl (\<lambda>table c.
        if cfields c = [] then table
        else AList.update (collection c)
               \<lparr>stype = GraphQLObjectType (collection c),
                sargs = this_args @ [(''filter'', filterTypes schema (collection c))]\<rparr> table)
       acc cs) k = Some s"
    and "\<And>s'. map_of acc k = Some s' \<Longrightarrow> stype s' = GraphQLObjectType k \<and> k \<in> collection ` K"
    and "set cs \<subseteq> K"
  shows "stype s = GraphQLObjectType k \<and> k \<in> collection ` K"
  using assms
proof (induction cs arbitrary: acc)
  case Nil
  then show ?case by simp
next
  case (Cons c cs)
  show ?case
  proof (rule Cons.IH)
    show "map_of (foldl (\<lambda>table c.
        if cfields c = [] then table
        else AList.update (collection c)
               \<lparr>stype = GraphQLObjectType (collection c),
                sargs = this_args @ [(''filter'', filterTypes schema (collection c))]\<rparr> table)
       (if cfields c = [] then acc
        else AList.update (collection c)
               \<lparr>stype = GraphQLObjectType (collection c),
                sargs = this_args @ [(''filter'', filterTypes schema (collection c))]\<rparr> acc) cs) k = Some s"
      using Cons.prems(1) by simp
  next
    fix s'
    assume "map_of (if cfields c = [] then acc
        else AList.update (collection c)
               \<lparr>stype = GraphQLObjectType (collection c),
                sargs = this_args @ [(''filter'', filterTypes schema (collection c))]\<rparr> acc) k = Some s'"
    then show "stype s' = GraphQLObjectType k \<and> k \<in> collection ` K"
      using Cons.prems(2,3) by (auto simp: update_conv' split: if_splits)
  next
    show "set cs \<subseteq> K" using Cons.prems(3) by simp
  qed
qed

lemma graphqlSchema_fold_keys:
  "fst ` set (foldl (\<lambda>table c.
        if cfields c = [] then table else AList.update (collection c) (section c) table) acc cs)
   = fst ` set acc \<union> collection ` {c \<in> set cs. cfields c \<noteq> []}"
proof (induction cs arbitrary: acc)
  case Nil
  show ?case by simp
next
  case (Cons c cs)
  show ?case
    by (simp add: Cons.IH dom_update) blast
qed

text \<open>
  The table has a section for exactly the collections with at least one field, and the
  section of a collection holds the object type of the collection's name.
\<close>

lemma graphqlSchema_keys:
  "fst ` set (graphqlSchema schema)
   = collection ` {c \<in> snd ` set (collections schema). cfields c \<noteq> []}"
  unfolding graphqlSchema_def by (simp add: graphqlSchema_fold_keys)

lemma graphqlSchema_section:
  assumes "map_of (graphqlSchema schema) k = Some s"
  shows "stype s = GraphQLObjectType k"
proof -
  have "stype s = GraphQLObjectType k \<and> k \<in> collection ` (snd ` set (collections schema))"
    by (rule graphqlSchema_fold[OF assms[unfolded graphqlSchema_def]]) auto
  then show ?thesis by simp
qed

lemma sectionType_graphqlSchema:
  "sectionType (graphqlSchema schema) k =
     (if k \<in> collection ` {c \<in> snd ` set (collections schema). cfields c \<noteq> []}
      then Inr (Some (GraphQLObjectType k))
      else if k \<in> set object_prototype_members then Inr None
      else Inl TypeError)"
proof (cases "map_of (graphqlSchema schema) k")
  case None
  then have "k \<notin> fst ` set (graphqlSchema schema)"
    by (simp add: map_of_eq_None_iff)
  then have "k \<notin> collection ` {c \<in> snd ` set (collections schema). cfields c \<noteq> []}"
    by (simp only: graphqlSchema_keys) simp
  with None show ?thesis by (simp add: sectionType_def)
next
  case (Some s)
  then have "k \<in> fst ` set (graphqlSchema schema)"
    by (metis domI dom_map_of_conv_image_fst)
  then have "k \<in> collection ` {c \<in> snd ` set (collections schema). cfields c \<noteq> []}"
    by (simp only: graphqlSchema_keys)
  with Some graphqlSchema_section[OF Some] show ?thesis by (simp add: sectionType_def)
qed

lemma unionTypes_graphqlSchema:
  "set rcs \<subseteq> collection ` {c \<in> snd ` set (collections schema). cfields c \<noteq> []} \<Longrightarrow>
   unionTypes (graphqlSchema schema) rcs = Inr (map (\<lambda>k. Some (GraphQLObjectType k)) rcs)"
  by (induction rcs) (simp_all add: sectionType_graphqlSchema)

lemma objectFieldsLoop_other:
  "objectFieldsLoop grt ggt ts schema c fs (obj0, l0) = Inr (obj, l) \<Longrightarrow>
   k \<notin> field ` set fs \<Longrightarrow> map_of obj k = map_of obj0 k"
proof (induction fs arbitrary: obj0 l0)
  case Nil
  then show ?case by simp
next
  case (Cons f fs)
  from Cons.prems(2) have ne: "k \<noteq> field f" and notin: "k \<notin> field ` set fs" by auto
  show ?case
  proof (cases "startsWith (field f) ''__''")
    case True
    with Cons.prems(1) show ?thesis using Cons.IH[OF _ notin] by simp
  next
    case False
    with Cons.prems(1) obtain stored config where
      st: "fieldConfig grt ggt ts schema c f = Inr stored"
      and cfg: "map_of (case stored of Some config \<Rightarrow> AList.update (field f) config obj0
                        | None \<Rightarrow> obj0) (field f) = Some config"
      and rest: "objectFieldsLoop grt ggt ts schema c fs
                   (AList.update (field f) (config\<lparr>description := fnote f\<rparr>)
                      (case stored of Some config \<Rightarrow> AList.update (field f) config obj0
                        | None \<Rightarrow> obj0), l0) = Inr (obj, l)"
      by (auto simp: Let_def split: sum.splits option.splits)
    from Cons.IH[OF rest notin] ne show ?thesis
      by (simp add: update_conv' split: option.splits)
  qed
qed

lemma objectFieldsLoop_field:
  "objectFieldsLoop grt ggt ts schema c fs (obj0, l0) = Inr (obj, l) \<Longrightarrow>
   distinct (map field fs) \<Longrightarrow> f \<in> set fs \<Longrightarrow> \<not> startsWith (field f) ''__'' \<Longrightarrow>
   map_of obj0 (field f) = None \<Longrightarrow>
   \<exists>config. fieldConfig grt ggt ts schema c f = Inr (Some config) \<and>
     map_of obj (field f) = Some (config\<lparr>description := fnote f\<rparr>)"
proof (induction fs arbitrary: obj0 l0)
  case Nil
  then show ?case by simp
next
  case (Cons g fs)
  show ?case
  proof (cases "f = g")
    case True
    with Cons.prems(2) have notin: "field f \<notin> field ` set fs" by auto
    from Cons.prems(1,4) True obtain stored config where
      st: "fieldConfig grt ggt ts schema c f = Inr stored"
      and cfg: "map_of (case stored of Some config \<Rightarrow> AList.update (field f) config obj0
                        | None \<Rightarrow> obj0) (field f) = Some config"
      and rest: "objectFieldsLoop grt ggt ts schema c fs
                   (AList.update (field f) (config\<lparr>description := fnote f\<rparr>)
                      (case stored of Some config \<Rightarrow> AList.update (field f) config obj0
                        | None \<Rightarrow> obj0), l0) = Inr (obj, l)"
      by (auto simp: Let_def split: sum.splits option.splits)
    from cfg Cons.prems(5) have "stored = Some config"
      by (cases stored) (simp_all add: update_conv')
    moreover from objectFieldsLoop_other[OF rest notin]
    have "map_of obj (field f) = Some (config\<lparr>description := fnote f\<rparr>)"
      by (simp add: update_conv')
    ultimately show ?thesis using st by simp
  next
    case False
    with Cons.prems have in_fs: "f \<in> set fs" and d: "distinct (map field fs)"
      and "field g \<notin> field ` set fs" by auto
    then have ne: "field f \<noteq> field g" by (metis imageI)
    show ?thesis
    proof (cases "startsWith (field g) ''__''")
      case True
      with Cons.prems(1) have "objectFieldsLoop grt ggt ts schema c fs
          (obj0, l0 @ [FieldUnavailable (field g) (collection c)]) = Inr (obj, l)" by simp
      from Cons.IH[OF this d in_fs Cons.prems(4) Cons.prems(5)] show ?thesis .
    next
      case False
      with Cons.prems(1) obtain stored config where
        rest: "objectFieldsLoop grt ggt ts schema c fs
                   (AList.update (field g) (config\<lparr>description := fnote g\<rparr>)
                      (case stored of Some config \<Rightarrow> AList.update (field g) config obj0
                        | None \<Rightarrow> obj0), l0) = Inr (obj, l)"
        by (auto simp: Let_def split: sum.splits option.splits)
      have "map_of (AList.update (field g) (config\<lparr>description := fnote g\<rparr>)
                      (case stored of Some config \<Rightarrow> AList.update (field g) config obj0
                        | None \<Rightarrow> obj0)) (field f) = None"
        using ne Cons.prems(5) by (simp add: update_conv' split: option.splits)
      from Cons.IH[OF rest d in_fs Cons.prems(4) this] show ?thesis .
    qed
  qed
qed

lemma objectFieldsLoop_keys:
  "objectFieldsLoop grt ggt ts schema c fs (obj0, l0) = Inr (obj, l) \<Longrightarrow>
   fst ` set obj \<subseteq> fst ` set obj0 \<union> {k \<in> field ` set fs. \<not> startsWith k ''__''}"
proof (induction fs arbitrary: obj0 l0)
  case Nil
  then show ?case by simp
next
  case (Cons f fs)
  show ?case
  proof (cases "startsWith (field f) ''__''")
    case True
    with Cons.prems have "objectFieldsLoop grt ggt ts schema c fs
          (obj0, l0 @ [FieldUnavailable (field f) (collection c)]) = Inr (obj, l)" by simp
    from Cons.IH[OF this] show ?thesis by auto
  next
    case False
    with Cons.prems obtain stored config where
      rest: "objectFieldsLoop grt ggt ts schema c fs
                   (AList.update (field f) (config\<lparr>description := fnote f\<rparr>)
                      (case stored of Some config \<Rightarrow> AList.update (field f) config obj0
                        | None \<Rightarrow> obj0), l0) = Inr (obj, l)"
      by (auto simp: Let_def split: sum.splits option.splits)
    from Cons.IH[OF rest] False show ?thesis
      by (auto simp: dom_update split: option.splits)
  qed
qed

lemma objectFieldsLoop_logged:
  "objectFieldsLoop grt ggt ts schema c fs (obj0, l0) = Inr (obj, l) \<Longrightarrow>
   set l = set l0 \<union> {FieldUnavailable (field f) (collection c) | f. f \<in> set fs \<and> startsWith (field f) ''__''}"
proof (induction fs arbitrary: obj0 l0)
  case Nil
  then show ?case by simp
next
  case (Cons f fs)
  show ?case
  proof (cases "startsWith (field f) ''__''")
    case True
    with Cons.prems have "objectFieldsLoop grt ggt ts schema c fs
          (obj0, l0 @ [FieldUnavailable (field f) (collection c)]) = Inr (obj, l)" by simp
    from Cons.IH[OF this] True show ?thesis by auto
  next
    case False
    with Cons.prems obtain stored config where
      rest: "objectFieldsLoop grt ggt ts schema c fs
                   (AList.update (field f) (config\<lparr>description := fnote f\<rparr>)
                      (case stored of Some config \<Rightarrow> AList.update (field f) config obj0
                        | None \<Rightarrow> obj0), l0) = Inr (obj, l)"
      by (auto simp: Let_def split: sum.splits option.splits)
    from Cons.IH[OF rest] False show ?thesis by auto
  qed
qed


text \<open>
  The deferred field map evaluates when a configuration is stored for every field that is
  not skipped: when the field has no relation, or its relation is classified and every
  related collection it names has a section in \<open>graphqlSchema\<close>.
\<close>

lemma objectFieldsLoop_evaluates:
  assumes "\<forall>f \<in> set fs. \<not> startsWith (field f) ''__'' \<longrightarrow>
             (\<exists>config. fieldConfig grt ggt ts schema c f = Inr (Some config))"
  shows "\<exists>fieldsObject logged. objectFieldsLoop grt ggt ts schema c fs acc = Inr (fieldsObject, logged)"
  using assms
proof (induction fs arbitrary: acc)
  case Nil
  show ?case by (cases acc) simp
next
  case (Cons f fs)
  obtain obj0 l0 where acc: "acc = (obj0, l0)" by (cases acc)
  from Cons.prems have rest: "\<forall>f \<in> set fs. \<not> startsWith (field f) ''__'' \<longrightarrow>
             (\<exists>config. fieldConfig grt ggt ts schema c f = Inr (Some config))" by simp
  show ?case
  proof (cases "startsWith (field f) ''__''")
    case True
    with Cons.IH[OF rest] show ?thesis unfolding acc by simp
  next
    case False
    with Cons.prems obtain config where "fieldConfig grt ggt ts schema c f = Inr (Some config)"
      by auto
    with False Cons.IH[OF rest] show ?thesis
      unfolding acc by (simp add: update_conv')
  qed
qed

lemma objectFields_evaluates:
  assumes "\<forall>f \<in> set (cfields c). \<not> startsWith (field f) ''__'' \<longrightarrow>
             (\<exists>config. fieldConfig grt ggt ts schema c f = Inr (Some config))"
  shows "\<exists>fieldsObject logged. objectFields grt ggt ts schema c = Inr (fieldsObject, logged)"
  unfolding objectFields_def using assms by (rule objectFieldsLoop_evaluates)

text \<open>
  C7. Let the deferred field map of a collection's object type evaluate (to
  \<open>fieldsObject\<close>), and let a field of the collection (field names distinct, the name not
  starting with \<open>__\<close>) have a relation; call a collection \<^emph>\<open>compiled\<close> when the schema has
  a collection of that name with at least one field (no collection being named
  \<open>__proto__\<close>). Classified many-to-one, with the relation's one collection compiled, the
  field's type is the object type of that collection, not wrapped in a list, and it takes
  no arguments. Classified one-to-many, with the relation's many collection compiled and a
  key of \<open>schema.collections\<close>, its type is a list of the object type of the many
  collection, and its arguments are exactly \<open>sort\<close> (a list of strings), \<open>limit\<close>,
  \<open>offset\<close>, \<open>page\<close> (integers), \<open>search\<close> (a string) and \<open>filter\<close>, typed by the
  filter input type of the many collection. Classified many-to-any, the relation declares
  its allowed collections, and with all of them compiled the field's type is the union
  named \<open>collection__field\<close> whose members are exactly the object types of the allowed
  collections, in their order.
\<close>

theorem objectFields_relation_types:
  assumes "objectFields getRelationType getGraphQLType this_schema schema c = Inr (fieldsObject, logged)"
    and "distinct (map field (cfields c))"
    and "f \<in> set (cfields c)"
    and "\<not> startsWith (field f) ''__''"
    and "relationForField (relations this_schema) (collection c) (field f) = Some r"
    and "''__proto__'' \<notin> collection ` snd ` set (collections schema)"
  shows "(getRelationType r (collection c) (field f) = Some M2O
          \<and> js_key (one_collection r)
              \<in> collection ` {rc \<in> snd ` set (collections schema). cfields rc \<noteq> []} \<longrightarrow>
            map_of fieldsObject (field f)
            = Some \<lparr>gtype = Some (GraphQLObjectType (js_key (one_collection r))),
                    gargs = None, description = fnote f\<rparr>)
       \<and> (getRelationType r (collection c) (field f) = Some O2M
          \<and> many_collection r
              \<in> collection ` {rc \<in> snd ` set (collections schema). cfields rc \<noteq> []}
          \<and> many_collection r \<in> fst ` set (collections schema) \<longrightarrow>
            map_of fieldsObject (field f)
            = Some \<lparr>gtype = Some (GraphQLList (GraphQLObjectType (many_collection r))),
                    gargs = Some [(''sort'', Some (GraphQLList GraphQLString)),
                                  (''limit'', Some GraphQLInt),
                                  (''offset'', Some GraphQLInt),
                                  (''page'', Some GraphQLInt),
                                  (''search'', Some GraphQLString),
                                  (''filter'',
                                   Some (GraphQLInputObjectType (many_collection r @ ''_filter'') None))],
                    description = fnote f\<rparr>)
       \<and> (getRelationType r (collection c) (field f) = Some M2A \<longrightarrow>
            (\<exists>allowed. one_allowed_collections r = Some allowed \<and>
               (set allowed
                  \<subseteq> collection ` {rc \<in> snd ` set (collections schema). cfields rc \<noteq> []} \<longrightarrow>
                map_of fieldsObject (field f)
                = Some \<lparr>gtype = Some (GraphQLUnionType (collection c @ ''__'' @ field f)
                                         (map (\<lambda>k. Some (GraphQLObjectType k)) allowed)
                                         (one_collection_field r)),
                        gargs = None, description = fnote f\<rparr>)))"
proof -
  from objectFieldsLoop_field[OF assms(1)[unfolded objectFields_def] assms(2,3,4)]
  obtain config where cfg: "fieldConfig getRelationType getGraphQLType this_schema schema c f = Inr (Some config)"
    and m: "map_of fieldsObject (field f) = Some (config\<lparr>description := fnote f\<rparr>)"
    by auto
  show ?thesis
  proof (intro conjI impI)
    assume "getRelationType r (collection c) (field f) = Some M2O
          \<and> js_key (one_collection r)
              \<in> collection ` {rc \<in> snd ` set (collections schema). cfields rc \<noteq> []}"
    with cfg assms(5) show "map_of fieldsObject (field f)
            = Some \<lparr>gtype = Some (GraphQLObjectType (js_key (one_collection r))),
                    gargs = None, description = fnote f\<rparr>"
      unfolding m
      by (auto simp: fieldConfig_def sectionType_graphqlSchema)
  next
    assume "getRelationType r (collection c) (field f) = Some O2M
          \<and> many_collection r
              \<in> collection ` {rc \<in> snd ` set (collections schema). cfields rc \<noteq> []}
          \<and> many_collection r \<in> fst ` set (collections schema)"
    with cfg assms(5) show "map_of fieldsObject (field f)
            = Some \<lparr>gtype = Some (GraphQLList (GraphQLObjectType (many_collection r))),
                    gargs = Some [(''sort'', Some (GraphQLList GraphQLString)),
                                  (''limit'', Some GraphQLInt),
                                  (''offset'', Some GraphQLInt),
                                  (''page'', Some GraphQLInt),
                                  (''search'', Some GraphQLString),
                                  (''filter'',
                                   Some (GraphQLInputObjectType (many_collection r @ ''_filter'') None))],
                    description = fnote f\<rparr>"
      unfolding m
      by (auto simp: fieldConfig_def sectionType_graphqlSchema this_args_def filterTypes_def)
  next
    assume t: "getRelationType r (collection c) (field f) = Some M2A"
    with cfg assms(5) obtain allowed where a: "one_allowed_collections r = Some allowed"
      by (auto simp: fieldConfig_def split: option.splits)
    have "set allowed
            \<subseteq> collection ` {rc \<in> snd ` set (collections schema). cfields rc \<noteq> []} \<longrightarrow>
          map_of fieldsObject (field f)
          = Some \<lparr>gtype = Some (GraphQLUnionType (collection c @ ''__'' @ field f)
                                   (map (\<lambda>k. Some (GraphQLObjectType k)) allowed)
                                   (one_collection_field r)),
                  gargs = None, description = fnote f\<rparr>"
    proof
      assume "set allowed
            \<subseteq> collection ` {rc \<in> snd ` set (collections schema). cfields rc \<noteq> []}"
      from unionTypes_graphqlSchema[OF this] t a cfg assms(5)
      show "map_of fieldsObject (field f)
          = Some \<lparr>gtype = Some (GraphQLUnionType (collection c @ ''__'' @ field f)
                                   (map (\<lambda>k. Some (GraphQLObjectType k)) allowed)
                                   (one_collection_field r)),
                  gargs = None, description = fnote f\<rparr>"
        unfolding m by (auto simp: fieldConfig_def)
    qed
    with a show "\<exists>allowed. one_allowed_collections r = Some allowed \<and>
               (set allowed
                  \<subseteq> collection ` {rc \<in> snd ` set (collections schema). cfields rc \<noteq> []} \<longrightarrow>
                map_of fieldsObject (field f)
                = Some \<lparr>gtype = Some (GraphQLUnionType (collection c @ ''__'' @ field f)
                                         (map (\<lambda>k. Some (GraphQLObjectType k)) allowed)
                                         (one_collection_field r)),
                        gargs = None, description = fnote f\<rparr>)"
      by blast
  qed
qed

text \<open>
  When the related collection of a many-to-one or one-to-many field is no collection with
  a field, \<open>graphqlSchema[...]\<close> is \<open>undefined\<close> and reading its \<open>type\<close> is a
  TypeError, unless the name is one that a plain object inherits: then the many-to-one
  field is stored with the type \<open>undefined\<close>, and for the one-to-many field
  \<open>new GraphQLList(undefined)\<close> throws.
\<close>

lemma fieldConfig_uncompiled:
  assumes "relationForField (relations this_schema) (collection c) (field f) = Some r"
  shows "(getRelationType r (collection c) (field f) = Some M2O
          \<and> js_key (one_collection r)
              \<notin> collection ` {rc \<in> snd ` set (collections schema). cfields rc \<noteq> []} \<longrightarrow>
            fieldConfig getRelationType getGraphQLType this_schema schema c f
            = (if js_key (one_collection r) \<in> set object_prototype_members
               then Inr (Some \<lparr>gtype = None, gargs = None, description = None\<rparr>)
               else Inl TypeError))
       \<and> (getRelationType r (collection c) (field f) = Some O2M
          \<and> many_collection r
              \<notin> collection ` {rc \<in> snd ` set (collections schema). cfields rc \<noteq> []} \<longrightarrow>
            fieldConfig getRelationType getGraphQLType this_schema schema c f
            = (if many_collection r \<in> set object_prototype_members
               then Inl (Thrown ''Expected undefined to be a GraphQL type.'')
               else Inl TypeError))"
  using assms by (simp add: fieldConfig_def sectionType_graphqlSchema)

lemmas eval_defs =
  objectFields_def fieldConfig_def relationForField_def getRelationType_spec_def
  graphqlSchema_def sectionType_def filterTypes_def startsWith_def this_args_def update_conv'

lemma example_objectFields_authors:
  "objectFields getRelationType_spec example_getGraphQLType example_schema example_schema example_authors
   = Inr ([(''id'', \<lparr>gtype = Some GraphQLID, gargs = None, description = None\<rparr>),
           (''name'', \<lparr>gtype = Some GraphQLString, gargs = None, description = Some ''Full name''\<rparr>),
           (''articles'',
            \<lparr>gtype = Some (GraphQLList (GraphQLObjectType ''articles'')),
             gargs = Some [(''sort'', Some (GraphQLList GraphQLString)),
                           (''limit'', Some GraphQLInt),
                           (''offset'', Some GraphQLInt),
                           (''page'', Some GraphQLInt),
                           (''search'', Some GraphQLString),
                           (''filter'', Some (GraphQLInputObjectType ''articles_filter'' None))],
             description = None\<rparr>)],
          [FieldUnavailable ''__secret'' ''authors''])"
  by (simp add: example_defs eval_defs)

lemma example_objectFields_articles:
  "objectFields getRelationType_spec example_getGraphQLType example_schema example_schema example_articles
   = Inr ([(''id'', \<lparr>gtype = Some GraphQLID, gargs = None, description = None\<rparr>),
           (''author'', \<lparr>gtype = Some (GraphQLObjectType ''authors''), gargs = None,
                         description = None\<rparr>)],
          [])"
  by (simp add: example_defs eval_defs)

lemma example_objectFields_sections:
  "objectFields getRelationType_spec example_getGraphQLType example_schema example_schema example_sections
   = Inr ([(''id'', \<lparr>gtype = Some GraphQLID, gargs = None, description = None\<rparr>),
           (''collection'', \<lparr>gtype = Some GraphQLString, gargs = None, description = None\<rparr>),
           (''item'',
            \<lparr>gtype = Some (GraphQLUnionType ''sections__item''
                             [Some (GraphQLObjectType ''headings''),
                              Some (GraphQLObjectType ''paragraphs'')]
                             (Some ''collection'')),
             gargs = None, description = None\<rparr>)],
          [])"
  by (simp add: example_defs eval_defs)

theorem objectFields_relation_types_witness:
  "(case objectFields getRelationType_spec example_getGraphQLType example_schema example_schema
           example_articles of
      Inl e \<Rightarrow> False
    | Inr (fieldsObject, logged) \<Rightarrow>
        map_of fieldsObject ''author''
        = Some \<lparr>gtype = Some (GraphQLObjectType ''authors''), gargs = None, description = None\<rparr>)
   \<and> (case objectFields getRelationType_spec example_getGraphQLType example_schema example_schema
           example_authors of
      Inl e \<Rightarrow> False
    | Inr (fieldsObject, logged) \<Rightarrow>
        map_of fieldsObject ''articles''
        = Some \<lparr>gtype = Some (GraphQLList (GraphQLObjectType ''articles'')),
                gargs = Some [(''sort'', Some (GraphQLList GraphQLString)),
                              (''limit'', Some GraphQLInt),
                              (''offset'', Some GraphQLInt),
                              (''page'', Some GraphQLInt),
                              (''search'', Some GraphQLString),
                              (''filter'', Some (GraphQLInputObjectType ''articles_filter'' None))],
                description = None\<rparr>)
   \<and> (case objectFields getRelationType_spec example_getGraphQLType example_schema example_schema
           example_sections of
      Inl e \<Rightarrow> False
    | Inr (fieldsObject, logged) \<Rightarrow>
        map_of fieldsObject ''item''
        = Some \<lparr>gtype = Some (GraphQLUnionType ''sections__item''
                                [Some (GraphQLObjectType ''headings''),
                                 Some (GraphQLObjectType ''paragraphs'')]
                                (Some ''collection'')),
                gargs = None, description = None\<rparr>)"
proof -
  let ?author = "\<lparr>field = ''author'', ftype = ''integer'', fnote = None\<rparr>"
  let ?articles = "\<lparr>field = ''articles'', ftype = ''alias'', fnote = None\<rparr>"
  let ?item = "\<lparr>field = ''item'', ftype = ''string'', fnote = None\<rparr>"
  have m2o: "getRelationType_spec example_author_relation (collection example_articles) (field ?author) = Some M2O"
    and o2m: "getRelationType_spec example_author_relation (collection example_authors) (field ?articles) = Some O2M"
    and m2a: "getRelationType_spec example_item_relation (collection example_sections) (field ?item) = Some M2A"
    by (simp_all add: example_defs getRelationType_spec_def)
  have d: "distinct (map field (cfields example_articles))"
    "distinct (map field (cfields example_authors))"
    "distinct (map field (cfields example_sections))"
    by (simp_all add: example_defs)
  have i: "?author \<in> set (cfields example_articles)"
    "?articles \<in> set (cfields example_authors)"
    "?item \<in> set (cfields example_sections)"
    by (simp_all add: example_defs)
  have n: "\<not> startsWith (field ?author) ''__''" "\<not> startsWith (field ?articles) ''__''"
    "\<not> startsWith (field ?item) ''__''"
    by (simp_all add: startsWith_def)
  have r: "relationForField (relations example_schema) (collection example_articles) (field ?author)
           = Some example_author_relation"
    "relationForField (relations example_schema) (collection example_authors) (field ?articles)
           = Some example_author_relation"
    "relationForField (relations example_schema) (collection example_sections) (field ?item)
           = Some example_item_relation"
    by (simp_all add: example_defs relationForField_def)
  have p: "''__proto__'' \<notin> collection ` snd ` set (collections example_schema)"
    by (simp add: example_defs)
  have "example_authors \<in> {rc \<in> snd ` set (collections example_schema). cfields rc \<noteq> []}"
    "example_articles \<in> {rc \<in> snd ` set (collections example_schema). cfields rc \<noteq> []}"
    "example_headings \<in> {rc \<in> snd ` set (collections example_schema). cfields rc \<noteq> []}"
    "example_paragraphs \<in> {rc \<in> snd ` set (collections example_schema). cfields rc \<noteq> []}"
    by (simp_all add: example_defs)
  from this[THEN imageI, of collection]
  have compiled:
    "''authors'' \<in> collection ` {rc \<in> snd ` set (collections example_schema). cfields rc \<noteq> []}"
    "''articles'' \<in> collection ` {rc \<in> snd ` set (collections example_schema). cfields rc \<noteq> []}"
    "''headings'' \<in> collection ` {rc \<in> snd ` set (collections example_schema). cfields rc \<noteq> []}"
    "''paragraphs'' \<in> collection ` {rc \<in> snd ` set (collections example_schema). cfields rc \<noteq> []}"
    by (simp_all add: example_authors_def example_articles_def example_headings_def
        example_paragraphs_def)
  have v: "js_key (one_collection example_author_relation) = ''authors''"
    "many_collection example_author_relation = ''articles''"
    "one_allowed_collections example_item_relation = Some [''headings'', ''paragraphs'']"
    "one_collection_field example_item_relation = Some ''collection''"
    "collection example_sections = ''sections''"
    "''articles'' \<in> fst ` set (collections example_schema)"
    by (simp_all add: example_defs)
  note A = objectFields_relation_types[OF example_objectFields_articles d(1) i(1) n(1) r(1) p]
  note B = objectFields_relation_types[OF example_objectFields_authors d(2) i(2) n(2) r(2) p]
  note C = objectFields_relation_types[OF example_objectFields_sections d(3) i(3) n(3) r(3) p]
  from A m2o B o2m C m2a v compiled show ?thesis
    by (simp add: example_objectFields_articles example_objectFields_authors
        example_objectFields_sections)
qed

subsection \<open>execute\<close>

text \<open>
  C4. When the schema is built and \<open>validate\<close> returns at least one error for the
  document, \<open>execute\<close> throws the payload exception \<open>GraphQL validation error.\<close> that
  carries the whole list of validation errors, and the log of accessor calls is the one
  before the request: the engine, and with it every resolver and every \<open>readByQuery\<close> or
  \<open>readSingleton\<close>, is never run. When \<open>validate\<close> itself throws (it does on a compiled
  schema that is invalid, such as a query type without fields), or the schema cannot be
  built, \<open>execute\<close> throws that same error, not wrapped in a payload exception, and again
  no accessor is called.
\<close>

theorem execute_validation_failure:
  "(getSchema lib reduceSchema admin this_schema scp = Inr schema
    \<and> validate lib schema document = Inr validationErrors \<and> validationErrors \<noteq> [] \<longrightarrow>
      execute lib reduceSchema admin this_schema document variables operationName scp calls =
        (Inl (InvalidPayloadException ''GraphQL validation error.'' validationErrors), calls))
   \<and> (getSchema lib reduceSchema admin this_schema scp = Inr schema
      \<and> validate lib schema document = Inl e \<longrightarrow>
        execute lib reduceSchema admin this_schema document variables operationName scp calls =
          (Inl e, calls))
   \<and> (getSchema lib reduceSchema admin this_schema scp = Inl e \<longrightarrow>
        execute lib reduceSchema admin this_schema document variables operationName scp calls =
          (Inl e, calls))"
  by (simp add: execute_def)

theorem execute_validation_failure_witness:
  "execute example_graphql (\<lambda>schema actions. schema) True example_schema ''{ authors { password } }''
     [] None Items []
   = (Inl (InvalidPayloadException ''GraphQL validation error.'' [GraphQLError ''Cannot query field.'']),
      [])
   \<and> execute example_graphql (\<lambda>schema actions. schema) True example_schema ''{ authors { password } }''
     [] None System []
   = (Inl (Thrown ''Type Query must define one or more fields.''), [])
   \<and> execute \<lparr>newGraphQLSchema = (\<lambda>queryBase. Inl (Thrown ''Schema must contain uniquely named types.'')),
              validate = validate example_graphql,
              engine_execute = engine_execute example_graphql,
              formatError = formatError example_graphql\<rparr>
       (\<lambda>schema actions. schema) True example_schema ''{ authors { password } }'' [] None Items []
   = (Inl (Thrown ''Schema must contain uniquely named types.''), [])"
proof -
  let ?failing = "\<lparr>newGraphQLSchema = (\<lambda>queryBase. Inl (Thrown ''Schema must contain uniquely named types.'')),
              validate = validate example_graphql,
              engine_execute = engine_execute example_graphql,
              formatError = formatError example_graphql\<rparr>"
  have items: "getSchema example_graphql (\<lambda>schema actions. schema) True example_schema Items
           = Inr (queryFields Items (schemaWithLists example_schema))
         \<and> validate example_graphql (queryFields Items (schemaWithLists example_schema))
             ''{ authors { password } }'' = Inr [GraphQLError ''Cannot query field.'']
         \<and> [GraphQLError ''Cannot query field.''] \<noteq> []"
    by (simp add: getSchema_def getDynamicQuerySchema_def example_graphql_def example_defs
        schemaWithLists_def graphqlSchema_def queryFields_def startsWith_def update_conv')
  have system: "getSchema example_graphql (\<lambda>schema actions. schema) True example_schema System
           = Inr []
         \<and> validate example_graphql [] ''{ authors { password } }''
           = Inl (Thrown ''Type Query must define one or more fields.'')"
    by (simp add: getSchema_def getDynamicQuerySchema_def example_graphql_def example_defs
        schemaWithLists_def graphqlSchema_def queryFields_def startsWith_def update_conv')
  have unbuilt: "getSchema ?failing (\<lambda>schema actions. schema) True example_schema Items
           = Inl (Thrown ''Schema must contain uniquely named types.'')"
    by (simp add: getSchema_def getDynamicQuerySchema_def)
  note A = execute_validation_failure[where lib = example_graphql, THEN conjunct1, THEN mp, OF items]
  note B = execute_validation_failure[where lib = example_graphql, THEN conjunct2, THEN conjunct1,
      THEN mp, OF system]
  note C = execute_validation_failure[where lib = ?failing, THEN conjunct2, THEN conjunct2,
      THEN mp, OF unbuilt]
  from A B C show ?thesis by (intro conjI)
qed

subsection \<open>getData\<close>

text \<open>
  C5. When the arguments sanitize, the selection plans (to \<open>paths\<close>) and the metadata
  query answers, \<open>getData\<close> ends in exactly one accessor call. It is \<open>readSingleton\<close> when
  the row found in \<open>directus_collections\<close> has a true \<open>singleton\<close>, or when no row is
  found and the first entry of \<open>systemCollectionRows\<close> for the collection has one; it is
  \<open>readByQuery\<close> in every other case. Either call receives the query whose \<open>fields\<close> are
  exactly the planned paths and the options \<open>{ stripNonRequested: false }\<close>.
\<close>

theorem getData_dispatch:
  assumes "sanitizeQuery (parseArgs argsArray variableValues) = Inr query"
    and "parseFields sanitizeQuery variableValues selections None query = Inr (paths, query1)"
    and "knexFirst c = Inr row"
  shows "getData sanitizeQuery knexFirst systemCollectionRows c selections argsArray variableValues =
           Inr ((if (case row of
                       Some s \<Rightarrow> s
                     | None \<Rightarrow>
                         (case List.find (\<lambda>m. meta_collection m = c) systemCollectionRows of
                            Some m \<Rightarrow> meta_singleton m
                          | None \<Rightarrow> False))
                 then ReadSingleton else ReadByQuery)
                  (ItemsService c)
                  (AList.update ''fields'' (js_array (map JStr paths)) query1)
                  \<lparr>stripNonRequested = False\<rparr>)"
  using assms
  by (auto simp: getData_def select_service_generic split: option.splits)

theorem getData_dispatch_witness:
  "getData example_sanitizeQuery (\<lambda>c. Inr None) example_systemCollectionRows
     ''directus_settings'' [Field ''project_name'' [] None] [] []
   = Inr (ReadSingleton (ItemsService ''directus_settings'')
            [(''fields'', js_array [JStr ''project_name''])] \<lparr>stripNonRequested = False\<rparr>)
   \<and> getData example_sanitizeQuery (\<lambda>c. Inr (Some True)) example_systemCollectionRows
     ''about'' [Field ''title'' [] None] [] []
   = Inr (ReadSingleton (ItemsService ''about'')
            [(''fields'', js_array [JStr ''title''])] \<lparr>stripNonRequested = False\<rparr>)
   \<and> getData example_sanitizeQuery (\<lambda>c. Inr (Some False)) example_systemCollectionRows
     ''directus_settings'' [Field ''project_name'' [] None] [] []
   = Inr (ReadByQuery (ItemsService ''directus_settings'')
            [(''fields'', js_array [JStr ''project_name''])] \<lparr>stripNonRequested = False\<rparr>)
   \<and> getData example_sanitizeQuery (\<lambda>c. Inr None) example_systemCollectionRows
     ''authors'' [Field ''name'' [] None] [] []
   = Inr (ReadByQuery (ItemsService ''authors'')
            [(''fields'', js_array [JStr ''name''])] \<lparr>stripNonRequested = False\<rparr>)"
proof -
  have s: "example_sanitizeQuery (parseArgs [] []) = Inr []"
    by (simp add: example_sanitizeQuery_def parseArgs_def)
  have p: "parseFields example_sanitizeQuery [] [Field ''project_name'' [] None] None []
           = Inr ([''project_name''], [])"
    "parseFields example_sanitizeQuery [] [Field ''title'' [] None] None [] = Inr ([''title''], [])"
    "parseFields example_sanitizeQuery [] [Field ''name'' [] None] None [] = Inr ([''name''], [])"
    by (simp_all add: startsWith_def)
  have k: "(\<lambda>c. Inr None :: error + bool option) ''directus_settings'' = Inr None"
    "(\<lambda>c. Inr (Some True) :: error + bool option) ''about'' = Inr (Some True)"
    "(\<lambda>c. Inr (Some False) :: error + bool option) ''directus_settings'' = Inr (Some False)"
    "(\<lambda>c. Inr None :: error + bool option) ''authors'' = Inr None"
    by simp_all
  note A = getData_dispatch[OF s p(1) k(1), where systemCollectionRows = example_systemCollectionRows]
  note B = getData_dispatch[OF s p(2) k(2), where systemCollectionRows = example_systemCollectionRows]
  note C = getData_dispatch[OF s p(1) k(3), where systemCollectionRows = example_systemCollectionRows]
  note D = getData_dispatch[OF s p(3) k(4), where systemCollectionRows = example_systemCollectionRows]
  from A B C D show ?thesis
    by (simp add: example_systemCollectionRows_def)
qed

text \<open>
  \<open>resolve\<close> hands the selection set and the arguments of the first field node to
  \<open>getData\<close>, for the collection named by the field in the items scope and by
  \<open>directus_\<close> and the field in the system scope.
\<close>

lemma resolve_getData:
  "resolve sanitizeQuery knexFirst systemCollectionRows scp fieldName
     (Field name arguments (Some selections) # others) variableValues
   = (case getData sanitizeQuery knexFirst systemCollectionRows
             (if scp = System then ''directus_'' @ fieldName else fieldName)
             selections arguments variableValues of
        Inl e \<Rightarrow> Inl e
      | Inr call \<Rightarrow> Inr (Some call))"
  by (simp add: resolve_def)

subsection \<open>The union's resolveType\<close>

lemma find_object_type:
  "x \<in> set allowed \<Longrightarrow>
   findType (JStr x) (map (\<lambda>k. Some (GraphQLObjectType k)) allowed) = Inr (Some (GraphQLObjectType x))"
  by (induction allowed) auto

lemma find_no_object_type:
  "x \<notin> set allowed \<Longrightarrow>
   findType (JStr x) (map (\<lambda>k. Some (GraphQLObjectType k)) allowed) = Inr None"
  by (induction allowed) auto

lemma find_no_name:
  "(\<And>x. v \<noteq> JStr x) \<Longrightarrow>
   findType v (map (\<lambda>k. Some (GraphQLObjectType k)) allowed) = Inr None"
  by (induction allowed) auto

text \<open>
  For a union field selected directly under a root field that returns one object (the
  response path is the root field and the union field), \<open>resolveType\<close> reads the
  discriminator of the enclosing object: it answers the member named by it, and no type,
  without an error, when the discriminator names no member.
\<close>

lemma resolveType_under_root_object:
  "resolveType (map (\<lambda>k. Some (GraphQLObjectType k)) allowed) (Some d) (JObject row)
     (Path (Some (Path None rootKey)) fieldKey)
   = Inr (case own_prop row d of
            JStr x \<Rightarrow> if x \<in> set allowed then Some (GraphQLObjectType x) else None
          | _ \<Rightarrow> None)"
proof (cases "own_prop row d")
  case (JStr x)
  then show ?thesis
    by (cases "x \<in> set allowed")
      (auto simp: resolveType_def slice_1_minus1_def find_object_type find_no_object_type)
qed (simp_all add: resolveType_def slice_1_minus1_def find_no_name)

text \<open>
  Under a root field that returns a list of rows (the response path is the root field, a
  row index and the union field) the discriminator is looked up on the array of rows: an
  array has no property of the discriminator's name, whatever the rows hold, and no member
  is answered.
\<close>

lemma resolveType_under_root_list:
  assumes "d \<notin> fst ` set rows"
  shows "resolveType (map (\<lambda>k. Some (GraphQLObjectType k)) allowed) (Some d) (JArray rows)
     (Path (Some (Path (Some (Path None rootKey)) (PathIndex i))) fieldKey) = Inr None"
proof -
  from assms have "map_of rows d = None"
    by (simp add: map_of_eq_None_iff)
  then have "own_prop rows d = JUndefined" by (simp add: own_prop_def)
  then show ?thesis
    by (simp add: resolveType_def slice_1_minus1_def find_no_name)
qed

text \<open>
  C3 (the code at the failing input). The collection \<open>sections\<close> is a list collection
  with the many-to-any field \<open>item\<close>, discriminated by \<open>collection\<close>, allowed collections
  \<open>headings\<close> and \<open>paragraphs\<close>. The query \<open>{ sections { item { ... } } }\<close> returned one
  row, whose discriminator is \<open>headings\<close>; the response path of its \<open>item\<close> is
  \<open>sections\<close>, \<open>0\<close>, \<open>item\<close>. The loop of \<open>resolveType\<close> leaves the root key out and
  \<open>slice(1, -1)\<close> then drops the index \<open>0\<close> as well, so the discriminator is read from
  the array of rows and not from the enclosing row: no member is found. One level deeper
  (\<open>pages\<close>, \<open>0\<close>, \<open>sections\<close>, \<open>0\<close>, \<open>item\<close>) the walk starts with the key
  \<open>sections\<close> on the array of pages, finds \<open>undefined\<close>, and throws a TypeError.
\<close>

theorem resolveType_list_row_unresolved:
  "resolveType [Some (GraphQLObjectType ''headings''), Some (GraphQLObjectType ''paragraphs'')]
     (Some ''collection'')
     (js_array [JObject [(''id'', JNum 1), (''collection'', JStr ''headings''),
                         (''item'', JObject [(''id'', JNum 7)])]])
     (Path (Some (Path (Some (Path None (PathName ''sections''))) (PathIndex 0))) (PathName ''item''))
   = Inr None
   \<and> resolveType [Some (GraphQLObjectType ''headings''), Some (GraphQLObjectType ''paragraphs'')]
     (Some ''collection'')
     (js_array [JObject [(''id'', JNum 1),
        (''sections'', js_array [JObject [(''collection'', JStr ''headings''),
                                          (''item'', JObject [(''id'', JNum 7)])]])]])
     (Path (Some (Path (Some (Path (Some (Path (Some (Path None (PathName ''pages'')))
        (PathIndex 0))) (PathName ''sections''))) (PathIndex 0))) (PathName ''item''))
   = Inl TypeError"
  by (simp add: resolveType_def slice_1_minus1_def js_array_def own_prop_def string_of_nat.simps)

subsection \<open>The selection planner (parseFields)\<close>

lemma parseFields_strip_reserved:
  "parseFields S V (strip_reserved sels) parent q = parseFields S V sels parent q"
proof (induction S V sels parent q rule: parseFields.induct)
  case (1 S V parent q)
  show ?case by simp
next
  case (2 S V n rest parent q)
  then show ?case by simp
next
  case (3 S V sels rest parent q)
  show ?case by simp
next
  case (4 S V t sels rest parent q)
  then show ?case
    by (auto split: sum.splits prod.splits)
next
  case (5 S V name arguments selectionSet rest parent q)
  show ?case
  proof (cases "startsWith name ''__''")
    case True
    with 5 show ?thesis by (cases selectionSet) simp_all
  next
    case False
    show ?thesis
    proof (cases selectionSet)
      case None
      with False 5 show ?thesis
        by (auto simp: Let_def split: sum.splits prod.splits)
    next
      case (Some sels)
      with False 5 show ?thesis
        by (auto simp: Let_def split: sum.splits prod.splits)
    qed
  qed
qed

text \<open>Facts about the lodash functions.\<close>

lemma mapKeys_fold_keys:
  "fst ` set (foldl (\<lambda>result (k, v). AList.update (f v k) v result) acc object)
   = fst ` set acc \<union> (\<lambda>(k, v). f v k) ` set object"
proof (induction object arbitrary: acc)
  case Nil
  show ?case by simp
next
  case (Cons p object)
  obtain k v where p: "p = (k, v)" by (cases p)
  have "fst ` set (AList.update (f v k) v acc) = insert (f v k) (fst ` set acc)"
    by (simp add: dom_update)
  then show ?case
    unfolding p by (simp add: Cons.IH)
qed

lemma mapKeys_keys: "fst ` set (mapKeys f object) = (\<lambda>(k, v). f v k) ` set object"
  by (simp add: mapKeys_def mapKeys_fold_keys)

lemma assignMergeValue_keys: "fst ` set (assignMergeValue object k v) = insert k (fst ` set object)"
  by (auto simp: assignMergeValue_def dom_update)

lemma assignMergeValue_other: "k' \<noteq> k \<Longrightarrow> map_of (assignMergeValue object k v) k' = map_of object k'"
  by (simp add: assignMergeValue_def update_conv')

lemma baseMerge_keys: "fst ` set (baseMerge object source) = fst ` set object \<union> fst ` set source"
proof (induction source arbitrary: object)
  case Nil
  show ?case by simp
next
  case (Cons p source)
  obtain k v where p: "p = (k, v)" by (cases p)
  show ?case
    unfolding p by (simp add: Cons.IH assignMergeValue_keys)
qed

lemma baseMerge_other:
  "k \<notin> fst ` set source \<Longrightarrow> map_of (baseMerge object source) k = map_of object k"
proof (induction source arbitrary: object)
  case Nil
  show ?case by simp
next
  case (Cons p source)
  obtain k' v where p: "p = (k', v)" by (cases p)
  from Cons.prems p have "k \<noteq> k'" and "k \<notin> fst ` set source" by auto
  then show ?case
    unfolding p by (simp add: Cons.IH assignMergeValue_other)
qed

lemma own_prop_update: "own_prop (AList.update k v ps) k = v"
  by (simp add: own_prop_def update_conv')

lemma baseGet_baseSet:
  "path \<noteq> [] \<Longrightarrow>
   baseGet (JObject (baseSet ps path v)) path = v \<and> baseGet (JArray (baseSet ps path v)) path = v"
proof (induction ps path v rule: baseSet.induct)
  case (1 nested v)
  then show ?case by simp
next
  case (2 nested k v)
  show ?case by (simp add: own_prop_update)
next
  case (3 nested k k' ks v)
  then show ?case
    by (simp add: own_prop_update split: jsval.splits)
qed

lemma baseSet_keys:
  "path \<noteq> [] \<Longrightarrow> fst ` set (baseSet ps path v) = insert (hd path) (fst ` set ps)"
  by (induction ps path v rule: baseSet.induct) (auto simp: dom_update)

lemma baseSet_other:
  "path \<noteq> [] \<Longrightarrow> k \<noteq> hd path \<Longrightarrow> map_of (baseSet ps path v) k = map_of ps k"
  by (induction ps path v rule: baseSet.induct) (auto simp: update_conv')

lemma splitDot_nonempty: "splitDot p \<noteq> []"
  by (induction p) (auto split: list.splits)

lemma splitDot_no_dot: "x \<in> set (splitDot p) \<Longrightarrow> CHR ''.'' \<notin> set x"
  by (induction p arbitrary: x) (auto split: list.splits if_splits)

lemma castPath_nonempty: "castPath p object \<noteq> []"
  by (simp add: castPath_def splitDot_nonempty)

lemma castPath_after_set:
  "castPath p (JObject (baseSet d (castPath p (JObject d)) v)) = castPath p (JObject d)"
proof (cases "CHR ''.'' \<in> set p \<and> p \<notin> fst ` set d")
  case True
  then have c: "castPath p (JObject d) = splitDot p" by (simp add: castPath_def)
  have "hd (splitDot p) \<in> set (splitDot p)" by (simp add: splitDot_nonempty)
  then have "CHR ''.'' \<notin> set (hd (splitDot p))" by (rule splitDot_no_dot)
  with True have "p \<noteq> hd (splitDot p)" by auto
  with True show ?thesis
    unfolding c by (simp add: castPath_def baseSet_keys splitDot_nonempty)
next
  case False
  then have c: "castPath p (JObject d) = [p]" by (auto simp: castPath_def)
  show ?thesis
    unfolding c using False by (auto simp: castPath_def dom_update)
qed

lemma lodash_get_set: "lodash_get (lodash_set (JObject d) p v) p = v"
  by (simp add: lodash_get_def castPath_after_set baseGet_baseSet castPath_nonempty)



text \<open>Facts about the plan.\<close>

lemma plan_leaves:
  "parseFields S V [Field ''a'' [] (Some [Field ''b'' [] None, Field ''c'' [] None])] None q
   = Inr ([''a.b'', ''a.c''], q)"
  by (simp add: startsWith_def)

lemma own_prop_Nil: "own_prop [] k = JUndefined"
  by (simp add: own_prop_def)

lemma mergeValue_primitive: "\<not> isObject v \<Longrightarrow> mergeValue objValue v = v"
  by (cases v) simp_all

lemma recordDeep_first_limit:
  assumes "S [(''limit'', JStr ''5'')] = Inr [(''limit'', l)]" and "\<not> isObject l"
    and "\<not> js_truthy (own_prop q ''deep'')"
  shows "recordDeep S V ''a'' [(''limit'', IntValue ''5'')] q
         = Inr (AList.update ''deep'' (JObject [(''a'', JObject [(''_limit'', l)])]) q)"
  using assms
  by (simp add: recordDeep_def parseArgs_def own_prop_update lodash_get_def castPath_def
      own_prop_Nil mapKeys_def deep_key_def assignMergeValue_def mergeValue_primitive update_last)

lemma plan_deep_limit:
  assumes "S [(''limit'', JStr ''5'')] = Inr [(''limit'', l)]" and "\<not> isObject l"
    and "\<not> js_truthy (own_prop q ''deep'')"
  shows "parseFields S V [Field ''a'' [(''limit'', IntValue ''5'')] (Some [Field ''b'' [] None])] None q
   = Inr ([''a.b''], AList.update ''deep'' (JObject [(''a'', JObject [(''_limit'', l)])]) q)"
  using assms by (simp add: startsWith_def recordDeep_first_limit)


lemma entries_lodash_merge: "entries (lodash_merge v source) = baseMerge (entries v) source"
  by (cases v) simp_all

lemma baseMerge_append:
  "baseMerge object (xs @ ys) = baseMerge (baseMerge object xs) ys"
proof (induction xs arbitrary: object)
  case Nil
  show ?case by simp
next
  case (Cons p xs)
  obtain k v where p: "p = (k, v)" by (cases p)
  show ?case unfolding p by (simp add: Cons.IH)
qed

lemma baseMerge_stores:
  assumes "(k, v) \<in> set source" and "distinct (map fst source)"
    and "\<not> isObject v" and "v \<noteq> JUndefined"
  shows "map_of (baseMerge object source) k = Some v"
proof -
  from assms(1) obtain xs ys where split: "source = xs @ (k, v) # ys"
    by (meson split_list)
  with assms(2) have "k \<notin> fst ` set ys" by auto
  then have "map_of (baseMerge object source) k
             = map_of (assignMergeValue (baseMerge object xs) k
                         (mergeValue (own_prop (baseMerge object xs) k) v)) k"
    unfolding split by (simp add: baseMerge_append baseMerge_other)
  also have "\<dots> = Some v"
    using assms(3,4) by (simp add: mergeValue_primitive assignMergeValue_def update_conv')
  finally show ?thesis .
qed

lemma update_fresh: "k \<notin> fst ` set acc \<Longrightarrow> AList.update k v acc = acc @ [(k, v)]"
  by (induction acc) auto

lemma mapKeys_fold_distinct:
  "distinct (map fst object) \<Longrightarrow> fst ` set acc \<inter> deep_key JNull ` fst ` set object = {} \<Longrightarrow>
   foldl (\<lambda>result (k, v). AList.update (deep_key v k) v result) acc object
   = acc @ map (\<lambda>(k, v). (deep_key v k, v)) object"
proof (induction object arbitrary: acc)
  case Nil
  show ?case by simp
next
  case (Cons p object)
  obtain k v where p: "p = (k, v)" by (cases p)
  have same: "deep_key v k = deep_key JNull k" by (simp add: deep_key_def)
  from Cons.prems p have notin: "deep_key v k \<notin> fst ` set acc"
    unfolding same by auto
  from Cons.prems p have "k \<notin> fst ` set object" by auto
  then have "deep_key JNull k \<notin> deep_key JNull ` fst ` set object"
    by (auto simp: deep_key_def)
  with Cons.prems p have disj: "fst ` set (acc @ [(deep_key v k, v)]) \<inter> deep_key JNull ` fst ` set object = {}"
    unfolding same by auto
  from Cons.prems p have d: "distinct (map fst object)" by simp
  show ?case
    unfolding p using Cons.IH[OF d disj] by (simp add: update_fresh[OF notin])
qed

lemma mapKeys_prefix_distinct:
  "distinct (map fst object) \<Longrightarrow>
   mapKeys deep_key object = map (\<lambda>(k, v). (deep_key v k, v)) object"
  using mapKeys_fold_distinct[of object "[]"] by (simp add: mapKeys_def)

lemma splitDot_plain: "CHR ''.'' \<notin> set p \<Longrightarrow> splitDot p = [p]"
  by (induction p) (auto split: list.splits)

lemma castPath_splitDot:
  "(CHR ''.'' \<in> set p \<longrightarrow> p \<notin> fst ` set (entries object)) \<Longrightarrow> castPath p object = splitDot p"
  by (auto simp: castPath_def splitDot_plain)

lemma isObject_lodash_merge: "isObject (lodash_merge v source)"
  by (cases v) simp_all

lemma prefixed_keys: "deep_key JNull ` A = (\<lambda>k. ''_'' @ k) ` A"
  by (simp add: deep_key_def)

lemma recordDeep_stores:
  assumes "S (parseArgs arguments V) = Inr sanitized"
    and "(if js_truthy (own_prop q ''deep'') then own_prop q ''deep'' else JObject []) = JObject d"
    and "CHR ''.'' \<in> set path \<longrightarrow> path \<notin> fst ` set d"
  shows "\<exists>q' d'. recordDeep S V path arguments q = Inr q'
           \<and> own_prop q' ''deep'' = JObject d'
           \<and> (\<forall>k. k \<noteq> ''deep'' \<longrightarrow> map_of q' k = map_of q k)
           \<and> (\<forall>k. k \<noteq> hd (splitDot path) \<longrightarrow> map_of d' k = map_of d k)
           \<and> isObject (baseGet (JObject d') (splitDot path))
           \<and> fst ` set (entries (baseGet (JObject d') (splitDot path)))
             = fst ` set (entries (baseGet (JObject d) (splitDot path)))
               \<union> (\<lambda>k. ''_'' @ k) ` fst ` set sanitized
           \<and> (\<forall>k. k \<notin> (\<lambda>k. ''_'' @ k) ` fst ` set sanitized \<longrightarrow>
                 map_of (entries (baseGet (JObject d') (splitDot path))) k
                 = map_of (entries (baseGet (JObject d) (splitDot path))) k)
           \<and> (\<forall>k v. (k, v) \<in> set sanitized \<and> distinct (map fst sanitized)
                       \<and> \<not> isObject v \<and> v \<noteq> JUndefined \<longrightarrow>
                 map_of (entries (baseGet (JObject d') (splitDot path))) (''_'' @ k) = Some v)"
proof -
  let ?renamed = "mapKeys deep_key sanitized"
  let ?old = "baseGet (JObject d) (splitDot path)"
  let ?merged = "lodash_merge ?old ?renamed"
  let ?q1 = "if js_truthy (own_prop q ''deep'') then q else AList.update ''deep'' (JObject []) q"
  let ?d' = "baseSet d (splitDot path) ?merged"
  let ?q' = "AList.update ''deep'' (JObject ?d') ?q1"
  have cp: "castPath path (JObject d) = splitDot path"
    using assms(3) by (simp add: castPath_splitDot)
  have deep1: "own_prop ?q1 ''deep'' = JObject d"
    using assms(2) by (auto simp: own_prop_update)
  have run: "recordDeep S V path arguments q = Inr ?q'"
    using assms(1) deep1 by (simp add: recordDeep_def Let_def lodash_get_def cp)
  have deep': "own_prop ?q' ''deep'' = JObject ?d'"
    by (simp add: own_prop_update)
  have rest: "\<forall>k. k \<noteq> ''deep'' \<longrightarrow> map_of ?q' k = map_of q k"
    by (simp add: update_conv')
  have top: "\<forall>k. k \<noteq> hd (splitDot path) \<longrightarrow> map_of ?d' k = map_of d k"
    by (simp add: baseSet_other splitDot_nonempty)
  have got: "baseGet (JObject ?d') (splitDot path) = ?merged"
    using baseGet_baseSet[OF splitDot_nonempty] by blast
  have obj: "isObject (baseGet (JObject ?d') (splitDot path))"
    unfolding got by (rule isObject_lodash_merge)
  have keys: "fst ` set ?renamed = deep_key JNull ` fst ` set sanitized"
    by (force simp: mapKeys_keys deep_key_def)
  have e: "entries (baseGet (JObject ?d') (splitDot path)) = baseMerge (entries ?old) ?renamed"
    unfolding got by (rule entries_lodash_merge)
  have stores: "map_of (entries (baseGet (JObject ?d') (splitDot path))) (deep_key JNull k) = Some v"
    if "(k, v) \<in> set sanitized \<and> distinct (map fst sanitized) \<and> \<not> isObject v \<and> v \<noteq> JUndefined"
    for k v
  proof -
    from that have r: "?renamed = map (\<lambda>(k, v). (deep_key v k, v)) sanitized"
      by (simp add: mapKeys_prefix_distinct)
    from that have "(deep_key v k, v) \<in> set ?renamed"
      unfolding r by force
    moreover from that have "distinct (map fst ?renamed)"
      unfolding r by (simp add: distinct_map inj_on_def comp_def case_prod_beta deep_key_def)
    moreover have "deep_key v k = deep_key JNull k" by (simp add: deep_key_def)
    ultimately show ?thesis
      unfolding e using that by (simp add: baseMerge_stores)
  qed
  have keys': "fst ` set (entries (baseGet (JObject ?d') (splitDot path)))
             = fst ` set (entries ?old) \<union> deep_key JNull ` fst ` set sanitized"
    by (simp only: e baseMerge_keys keys)
  have other: "\<forall>k. k \<notin> deep_key JNull ` fst ` set sanitized \<longrightarrow>
                 map_of (entries (baseGet (JObject ?d') (splitDot path))) k
                 = map_of (entries ?old) k"
    by (simp only: e) (simp add: baseMerge_other keys)
  have stores': "\<forall>k v. (k, v) \<in> set sanitized \<and> distinct (map fst sanitized)
                       \<and> \<not> isObject v \<and> v \<noteq> JUndefined \<longrightarrow>
                 map_of (entries (baseGet (JObject ?d') (splitDot path))) (''_'' @ k) = Some v"
    using stores unfolding deep_key_def by blast
  from run deep' rest top obj keys'[unfolded prefixed_keys] other[unfolded prefixed_keys] stores'
  show ?thesis
    by blast
qed



lemma own_prop_Cons: "own_prop ((k, v) # ps) k' = (if k = k' then v else own_prop ps k')"
  by (simp add: own_prop_def)

lemmas record_simps =
  recordDeep_def Let_def parseArgs_def own_prop_update own_prop_Nil own_prop_Cons lodash_get_def
  castPath_def mapKeys_def deep_key_def assignMergeValue_def mergeValue_primitive update_last
  isIndex_def

lemma plan_nested_leaves:
  "parseFields S V [Field ''a'' [] (Some [Field ''b'' [] (Some [Field ''c'' [] None]),
                                          Field ''d'' [] None])] None q
   = Inr ([''a.b.c'', ''a.d''], q)"
  by (simp add: startsWith_def)

lemma recordDeep_nested_offset:
  assumes "S [(''offset'', JStr ''2'')] = Inr [(''offset'', off)]" and "\<not> isObject off"
    and "\<not> js_truthy (own_prop q ''deep'')"
  shows "recordDeep S V ''a.b'' [(''offset'', IntValue ''2'')] q
         = Inr (AList.update ''deep''
                  (JObject [(''a'', JObject [(''b'', JObject [(''_offset'', off)])])]) q)"
  using assms by (simp add: record_simps)

lemma recordDeep_outer_limit:
  assumes "S [(''limit'', JStr ''5'')] = Inr [(''limit'', l)]" and "\<not> isObject l"
  shows "recordDeep S V ''a'' [(''limit'', IntValue ''5'')]
           (AList.update ''deep''
              (JObject [(''a'', JObject [(''b'', JObject [(''_offset'', off)])])]) q)
         = Inr (AList.update ''deep''
                  (JObject [(''a'', JObject [(''b'', JObject [(''_offset'', off)]), (''_limit'', l)])]) q)"
  using assms by (simp add: record_simps)

lemma recordDeep_second_offset:
  assumes "S [(''offset'', JStr ''2'')] = Inr [(''offset'', off)]" and "\<not> isObject off"
  shows "recordDeep S V ''a'' [(''offset'', IntValue ''2'')]
           (AList.update ''deep'' (JObject [(''a'', JObject [(''_limit'', l)])]) q)
         = Inr (AList.update ''deep''
                  (JObject [(''a'', JObject [(''_limit'', l), (''_offset'', off)])]) q)"
  using assms by (simp add: record_simps)

lemma plan_deep_nested:
  assumes "S [(''limit'', JStr ''5'')] = Inr [(''limit'', l)]" and "\<not> isObject l"
    and "S [(''offset'', JStr ''2'')] = Inr [(''offset'', off)]" and "\<not> isObject off"
    and "\<not> js_truthy (own_prop q ''deep'')"
  shows "parseFields S V
           [Field ''a'' [(''limit'', IntValue ''5'')]
              (Some [Field ''b'' [(''offset'', IntValue ''2'')] (Some [Field ''c'' [] None])])] None q
   = Inr ([''a.b.c''],
          AList.update ''deep''
            (JObject [(''a'', JObject [(''b'', JObject [(''_offset'', off)]), (''_limit'', l)])]) q)"
  using assms
  by (simp add: startsWith_def recordDeep_nested_offset recordDeep_outer_limit)

lemma plan_deep_same_path:
  assumes "S [(''limit'', JStr ''5'')] = Inr [(''limit'', l)]" and "\<not> isObject l"
    and "S [(''offset'', JStr ''2'')] = Inr [(''offset'', off)]" and "\<not> isObject off"
    and "\<not> js_truthy (own_prop q ''deep'')"
  shows "parseFields S V
           [Field ''a'' [(''limit'', IntValue ''5'')] (Some [Field ''b'' [] None]),
            Field ''a'' [(''offset'', IntValue ''2'')] (Some [Field ''c'' [] None])] None q
   = Inr ([''a.b'', ''a.c''],
          AList.update ''deep'' (JObject [(''a'', JObject [(''_limit'', l), (''_offset'', off)])]) q)"
  using assms
  by (simp add: startsWith_def recordDeep_first_limit recordDeep_second_offset)

lemma extends_longer:
  assumes "length (p @ s) \<le> length x \<and> take (length (p @ s)) x = p @ s" and "s \<noteq> []"
  shows "length p < length x \<and> take (length p) x = p"
proof -
  from assms(1) have "x = (p @ s) @ drop (length (p @ s)) x"
    by (metis append_take_drop_id)
  then obtain r where x: "x = p @ s @ r" by (metis append.assoc)
  with assms(2) show ?thesis by (cases s) simp_all
qed

lemma parseFields_extends_parent:
  "parseFields S V sels parent q = Inr (paths, q') \<Longrightarrow> parent = Some p \<Longrightarrow> p \<noteq> [] \<Longrightarrow>
   x \<in> set paths \<Longrightarrow> length p < length x \<and> take (length p) x = p"
proof (induction S V sels parent q arbitrary: paths q' p x rule: parseFields.induct)
  case (1 S V parent q)
  then show ?case by simp
next
  case (2 S V n rest parent q)
  then show ?case by simp
next
  case (3 S V sels rest parent q)
  then show ?case by simp
next
  case (4 S V t sels rest parent q)
  define cur where "cur = template_string parent @ '':'' @ t"
  show ?case
  proof (cases "startsWith t ''__''")
    case True
    with "4.prems" "4.IH"(1) show ?thesis by simp
  next
    case False
    from "4.prems"(1) False
    have "(case parseFields S V sels (Some cur) q of
             Inl e \<Rightarrow> Inl e
           | Inr (children, query1) \<Rightarrow>
               (case parseFields S V rest parent query1 of
                  Inl e \<Rightarrow> Inl e
                | Inr (later, query2) \<Rightarrow> Inr (children @ later, query2))) = Inr (paths, q')"
      unfolding cur_def by simp
    then obtain children q1 later where
      c: "parseFields S V sels (Some cur) q = Inr (children, q1)"
      and l: "parseFields S V rest parent q1 = Inr (later, q')"
      and paths: "paths = children @ later"
      by (auto split: sum.splits prod.splits)
    from "4.prems"(4) paths consider "x \<in> set children" | "x \<in> set later" by auto
    then show ?thesis
    proof cases
      case 1
      have "template_string parent @ '':'' @ t \<noteq> []" by simp
      from "4.IH"(2)[OF False c[unfolded cur_def] refl this 1]
      have "length (p @ '':'' @ t) \<le> length x \<and> take (length (p @ '':'' @ t)) x = p @ '':'' @ t"
        using "4.prems"(2) by simp
      then show ?thesis
        by (rule extends_longer) simp
    next
      case 2
      from "4.IH"(3)[OF False c[unfolded cur_def] refl l "4.prems"(2,3) 2] show ?thesis .
    qed
  qed
next
  case (5 S V name arguments selectionSet rest parent q)
  define cur where "cur = (case parent of None \<Rightarrow> name
       | Some p \<Rightarrow> if p \<noteq> [] then p @ ''.'' @ name else name)"
  show ?case
  proof (cases "startsWith name ''__''")
    case True
    with "5.prems" "5.IH"(1) show ?thesis by simp
  next
    case False
    from "5.prems"(2,3) have cur: "cur = p @ ''.'' @ name" by (simp add: cur_def)
    from "5.prems"(1) False
    have "(case (case selectionSet of
                   Some sels \<Rightarrow> parseFields S V sels (Some cur) q
                 | None \<Rightarrow> Inr ([cur], q)) of
             Inl e \<Rightarrow> Inl e
           | Inr (pushed, query1) \<Rightarrow>
               (case (if arguments \<noteq> [] then recordDeep S V cur arguments query1
                      else Inr query1) of
                  Inl e \<Rightarrow> Inl e
                | Inr query2 \<Rightarrow>
                    (case parseFields S V rest parent query2 of
                       Inl e \<Rightarrow> Inl e
                     | Inr (later, query3) \<Rightarrow> Inr (pushed @ later, query3)))) = Inr (paths, q')"
      unfolding cur_def by (simp add: Let_def)
    then obtain pushed q1 q2 later where
      c: "(case selectionSet of
             None \<Rightarrow> Inr ([cur], q)
           | Some sels \<Rightarrow> parseFields S V sels (Some cur) q) = Inr (pushed, q1)"
      and d: "(if arguments \<noteq> [] then recordDeep S V cur arguments q1 else Inr q1) = Inr q2"
      and l: "parseFields S V rest parent q2 = Inr (later, q')"
      and paths: "paths = pushed @ later"
      by (auto split: sum.splits prod.splits)
    from "5.prems"(4) paths consider "x \<in> set pushed" | "x \<in> set later" by auto
    then show ?thesis
    proof cases
      case 1
      have "length cur \<le> length x \<and> take (length cur) x = cur"
      proof (cases selectionSet)
        case None
        with c 1 show ?thesis by auto
      next
        case (Some sels)
        with c have c': "parseFields S V sels (Some cur) q = Inr (pushed, q1)" by simp
        have ne: "cur \<noteq> []" unfolding cur by simp
        from "5.IH"(2)[OF False cur_def Some c' refl ne 1] show ?thesis by simp
      qed
      then have "length (p @ ''.'' @ name) \<le> length x
                 \<and> take (length (p @ ''.'' @ name)) x = p @ ''.'' @ name"
        unfolding cur .
      then show ?thesis
        by (rule extends_longer) simp
    next
      case 2
      from "5.IH"(3)[OF False cur_def c refl d l "5.prems"(2,3) 2] show ?thesis .
    qed
  qed
qed


lemma parseFields_only_leaves:
  assumes "parseFields S V [Field name arguments (Some sels)] parent q = Inr (paths, q')"
    and "name \<noteq> []" and "x \<in> set paths"
    and "current = (case parent of None \<Rightarrow> name
                    | Some p \<Rightarrow> if p \<noteq> [] then p @ ''.'' @ name else name)"
  shows "length current < length x \<and> take (length current) x = current"
proof (cases "startsWith name ''__''")
  case True
  with assms(1,3) show ?thesis by simp
next
  case False
  from assms(1) False
  obtain q1 where c: "parseFields S V sels (Some current) q = Inr (paths, q1)"
    unfolding assms(4) by (auto simp: Let_def split: sum.splits prod.splits if_splits)
  have "current \<noteq> []"
    unfolding assms(4) using assms(2) by (simp split: option.splits)
  from parseFields_extends_parent[OF c refl this assms(3)] show ?thesis .
qed

lemma recordDeepAll_append:
  "recordDeepAll S V (xs @ ys) q =
     (case recordDeepAll S V xs q of Inl e \<Rightarrow> Inl e | Inr q1 \<Rightarrow> recordDeepAll S V ys q1)"
  by (induction xs arbitrary: q) (auto split: sum.splits)

lemma parseFields_refines:
  "parseFields S V sels parent q = Inr (paths, q') \<Longrightarrow>
   paths = plan_paths_spec sels parent \<and> recordDeepAll S V (plan_deep_spec sels parent) q = Inr q'"
proof (induction S V sels parent q arbitrary: paths q' rule: parseFields.induct)
  case (1 S V parent q)
  then show ?case by simp
next
  case (2 S V n rest parent q)
  then show ?case by simp
next
  case (3 S V sels rest parent q)
  then show ?case by simp
next
  case (4 S V t sels rest parent q)
  define cur where "cur = template_string parent @ '':'' @ t"
  show ?case
  proof (cases "startsWith t ''__''")
    case True
    with "4.prems" "4.IH"(1) show ?thesis by simp
  next
    case False
    from "4.prems"(1) False
    have "(case parseFields S V sels (Some cur) q of
             Inl e \<Rightarrow> Inl e
           | Inr (children, query1) \<Rightarrow>
               (case parseFields S V rest parent query1 of
                  Inl e \<Rightarrow> Inl e
                | Inr (later, query2) \<Rightarrow> Inr (children @ later, query2))) = Inr (paths, q')"
      unfolding cur_def by simp
    then obtain children q1 later where
      c: "parseFields S V sels (Some cur) q = Inr (children, q1)"
      and l: "parseFields S V rest parent q1 = Inr (later, q')"
      and paths: "paths = children @ later"
      by (auto split: sum.splits prod.splits)
    from "4.IH"(2)[OF False c[unfolded cur_def]]
    have a: "children = plan_paths_spec sels (Some cur)"
      "recordDeepAll S V (plan_deep_spec sels (Some cur)) q = Inr q1"
      unfolding cur_def by simp_all
    from "4.IH"(3)[OF False c[unfolded cur_def] refl l]
    have b: "later = plan_paths_spec rest parent"
      "recordDeepAll S V (plan_deep_spec rest parent) q1 = Inr q'"
      by simp_all
    have p: "plan_paths_spec (InlineFragment (Some t) sels # rest) parent
             = plan_paths_spec sels (Some cur) @ plan_paths_spec rest parent"
      and d: "plan_deep_spec (InlineFragment (Some t) sels # rest) parent
             = plan_deep_spec sels (Some cur) @ plan_deep_spec rest parent"
      using False unfolding cur_def by simp_all
    show ?thesis
      unfolding p d paths using a b by (simp add: recordDeepAll_append)
  qed
next
  case (5 S V name arguments selectionSet rest parent q)
  define cur where "cur = (case parent of None \<Rightarrow> name
       | Some p \<Rightarrow> if p \<noteq> [] then p @ ''.'' @ name else name)"
  have dcur: "dotted parent name = cur" by (simp add: dotted_def cur_def)
  show ?case
  proof (cases "startsWith name ''__''")
    case True
    with "5.prems" "5.IH"(1) show ?thesis by (cases selectionSet) simp_all
  next
    case False
    from "5.prems"(1) False
    have "(case (case selectionSet of
                   Some sels \<Rightarrow> parseFields S V sels (Some cur) q
                 | None \<Rightarrow> Inr ([cur], q)) of
             Inl e \<Rightarrow> Inl e
           | Inr (pushed, query1) \<Rightarrow>
               (case (if arguments \<noteq> [] then recordDeep S V cur arguments query1
                      else Inr query1) of
                  Inl e \<Rightarrow> Inl e
                | Inr query2 \<Rightarrow>
                    (case parseFields S V rest parent query2 of
                       Inl e \<Rightarrow> Inl e
                     | Inr (later, query3) \<Rightarrow> Inr (pushed @ later, query3)))) = Inr (paths, q')"
      unfolding cur_def by (simp add: Let_def)
    then obtain pushed q1 q2 later where
      c: "(case selectionSet of
             None \<Rightarrow> Inr ([cur], q)
           | Some sels \<Rightarrow> parseFields S V sels (Some cur) q) = Inr (pushed, q1)"
      and d: "(if arguments \<noteq> [] then recordDeep S V cur arguments q1 else Inr q1) = Inr q2"
      and l: "parseFields S V rest parent q2 = Inr (later, q')"
      and paths: "paths = pushed @ later"
      by (auto split: sum.splits prod.splits)
    from "5.IH"(3)[OF False cur_def c refl d l]
    have b: "later = plan_paths_spec rest parent"
      "recordDeepAll S V (plan_deep_spec rest parent) q2 = Inr q'"
      by simp_all
    have own: "recordDeepAll S V (if arguments = [] then [] else [(cur, arguments)]) q1 = Inr q2"
      using d by (auto split: sum.splits if_splits)
    show ?thesis
    proof (cases selectionSet)
      case None
      with c have "pushed = [cur]" "q1 = q" by simp_all
      with None False b own paths show ?thesis
        by (simp add: dcur recordDeepAll_append split: if_splits)
    next
      case (Some sels)
      with c have c': "parseFields S V sels (Some cur) q = Inr (pushed, q1)" by simp
      from "5.IH"(2)[OF False cur_def Some c']
      have a: "pushed = plan_paths_spec sels (Some cur)"
        "recordDeepAll S V (plan_deep_spec sels (Some cur)) q = Inr q1"
        by simp_all
      from Some False a b own paths show ?thesis
        by (simp add: dcur recordDeepAll_append split: if_splits)
    qed
  qed
qed



text \<open>
  C6. The planner emits leaf paths only. \<open>{a {b c}}\<close> without arguments plans exactly
  \<open>a.b\<close>, \<open>a.c\<close> in that order and \<open>{a {b {c} d}}\<close> exactly \<open>a.b.c\<close>, \<open>a.d\<close>, the
  query left as it was. In general, whenever the planner returns, its paths are those of
  the specification's plan (the dotted paths of the fields without a selection set, in
  document order), and the query it leaves is the one obtained by recording, in turn, the
  arguments of every field that carries arguments at that field's dotted path; every path
  a field with a selection set contributes is strictly longer than, and starts with, the
  field's own path. \<open>{a(limit:5){b}}\<close> on a query without \<open>deep\<close> plans \<open>a.b\<close>
  and stores under \<open>deep\<close> the entry \<open>a\<close> holding \<open>_limit\<close> with the sanitized
  limit; \<open>{a(limit:5){b(offset:2){c}}}\<close> plans \<open>a.b.c\<close> and stores the block of
  \<open>a.b\<close> as the entry \<open>b\<close> of the block of \<open>a\<close>, beside \<open>_limit\<close>; two fields
  \<open>a\<close> with arguments fill one block \<open>a\<close> with \<open>_limit\<close> and \<open>_offset\<close>.
  Recording at a path, on a query whose \<open>deep\<close> is an object (or absent) and has the
  dotted path not itself as a key, changes nothing of the query but \<open>deep\<close> and nothing
  of \<open>deep\<close> but the entry of the path's first segment; the block then found by walking
  \<open>deep\<close> along the segments of the path is an object whose keys are those of the block
  found there before and the sanitized option keys, each prefixed with the one character
  \<open>_\<close>; every entry of the old block under another key is unchanged, and a defined,
  primitive option value is stored under its prefixed key.
\<close>

theorem parseFields_plan:
  "parseFields S V [Field ''a'' [] (Some [Field ''b'' [] None, Field ''c'' [] None])] None q
     = Inr ([''a.b'', ''a.c''], q)
   \<and> parseFields S V [Field ''a'' [] (Some [Field ''b'' [] (Some [Field ''c'' [] None]),
                                            Field ''d'' [] None])] None q
     = Inr ([''a.b.c'', ''a.d''], q)
   \<and> (parseFields S V sels parent q = Inr (paths, q') \<longrightarrow>
        paths = plan_paths_spec sels parent
        \<and> recordDeepAll S V (plan_deep_spec sels parent) q = Inr q')
   \<and> (parseFields S V [Field name arguments (Some sels)] parent q = Inr (paths, q')
        \<and> name \<noteq> [] \<and> x \<in> set paths
        \<and> current = (case parent of None \<Rightarrow> name
                       | Some p \<Rightarrow> if p \<noteq> [] then p @ ''.'' @ name else name) \<longrightarrow>
        length current < length x \<and> take (length current) x = current)
   \<and> (S [(''limit'', JStr ''5'')] = Inr [(''limit'', l)] \<and> \<not> isObject l
        \<and> \<not> js_truthy (own_prop q ''deep'') \<longrightarrow>
        parseFields S V [Field ''a'' [(''limit'', IntValue ''5'')] (Some [Field ''b'' [] None])] None q
        = Inr ([''a.b''], AList.update ''deep'' (JObject [(''a'', JObject [(''_limit'', l)])]) q))
   \<and> (S [(''limit'', JStr ''5'')] = Inr [(''limit'', l)] \<and> \<not> isObject l
        \<and> S [(''offset'', JStr ''2'')] = Inr [(''offset'', off)] \<and> \<not> isObject off
        \<and> \<not> js_truthy (own_prop q ''deep'') \<longrightarrow>
        parseFields S V
          [Field ''a'' [(''limit'', IntValue ''5'')]
             (Some [Field ''b'' [(''offset'', IntValue ''2'')] (Some [Field ''c'' [] None])])] None q
        = Inr ([''a.b.c''],
               AList.update ''deep''
                 (JObject [(''a'', JObject [(''b'', JObject [(''_offset'', off)]), (''_limit'', l)])]) q))
   \<and> (S [(''limit'', JStr ''5'')] = Inr [(''limit'', l)] \<and> \<not> isObject l
        \<and> S [(''offset'', JStr ''2'')] = Inr [(''offset'', off)] \<and> \<not> isObject off
        \<and> \<not> js_truthy (own_prop q ''deep'') \<longrightarrow>
        parseFields S V
          [Field ''a'' [(''limit'', IntValue ''5'')] (Some [Field ''b'' [] None]),
           Field ''a'' [(''offset'', IntValue ''2'')] (Some [Field ''c'' [] None])] None q
        = Inr ([''a.b'', ''a.c''],
               AList.update ''deep''
                 (JObject [(''a'', JObject [(''_limit'', l), (''_offset'', off)])]) q))
   \<and> (S (parseArgs arguments V) = Inr sanitized
        \<and> (if js_truthy (own_prop q ''deep'') then own_prop q ''deep'' else JObject []) = JObject d
        \<and> (CHR ''.'' \<in> set path \<longrightarrow> path \<notin> fst ` set d) \<longrightarrow>
        (\<exists>q' d'. recordDeep S V path arguments q = Inr q'
           \<and> own_prop q' ''deep'' = JObject d'
           \<and> (\<forall>k. k \<noteq> ''deep'' \<longrightarrow> map_of q' k = map_of q k)
           \<and> (\<forall>k. k \<noteq> hd (splitDot path) \<longrightarrow> map_of d' k = map_of d k)
           \<and> isObject (baseGet (JObject d') (splitDot path))
           \<and> fst ` set (entries (baseGet (JObject d') (splitDot path)))
             = fst ` set (entries (baseGet (JObject d) (splitDot path)))
               \<union> (\<lambda>k. ''_'' @ k) ` fst ` set sanitized
           \<and> (\<forall>k. k \<notin> (\<lambda>k. ''_'' @ k) ` fst ` set sanitized \<longrightarrow>
                 map_of (entries (baseGet (JObject d') (splitDot path))) k
                 = map_of (entries (baseGet (JObject d) (splitDot path))) k)
           \<and> (\<forall>k v. (k, v) \<in> set sanitized \<and> distinct (map fst sanitized)
                       \<and> \<not> isObject v \<and> v \<noteq> JUndefined \<longrightarrow>
                 map_of (entries (baseGet (JObject d') (splitDot path))) (''_'' @ k) = Some v)))"
proof (intro conjI)
  show "parseFields S V [Field ''a'' [] (Some [Field ''b'' [] None, Field ''c'' [] None])] None q
     = Inr ([''a.b'', ''a.c''], q)"
    by (rule plan_leaves)
next
  show "parseFields S V [Field ''a'' [] (Some [Field ''b'' [] (Some [Field ''c'' [] None]),
                                            Field ''d'' [] None])] None q
     = Inr ([''a.b.c'', ''a.d''], q)"
    by (rule plan_nested_leaves)
next
  show "parseFields S V sels parent q = Inr (paths, q') \<longrightarrow>
        paths = plan_paths_spec sels parent
        \<and> recordDeepAll S V (plan_deep_spec sels parent) q = Inr q'"
    using parseFields_refines[of S V sels parent q paths q'] by blast
next
  show "parseFields S V [Field name arguments (Some sels)] parent q = Inr (paths, q')
        \<and> name \<noteq> [] \<and> x \<in> set paths
        \<and> current = (case parent of None \<Rightarrow> name
                       | Some p \<Rightarrow> if p \<noteq> [] then p @ ''.'' @ name else name) \<longrightarrow>
        length current < length x \<and> take (length current) x = current"
    using parseFields_only_leaves[of S V name arguments sels parent q paths q' x current] by blast
next
  show "S [(''limit'', JStr ''5'')] = Inr [(''limit'', l)] \<and> \<not> isObject l
        \<and> \<not> js_truthy (own_prop q ''deep'') \<longrightarrow>
        parseFields S V [Field ''a'' [(''limit'', IntValue ''5'')] (Some [Field ''b'' [] None])] None q
        = Inr ([''a.b''], AList.update ''deep'' (JObject [(''a'', JObject [(''_limit'', l)])]) q)"
    using plan_deep_limit[of S l q V] by blast
next
  show "S [(''limit'', JStr ''5'')] = Inr [(''limit'', l)] \<and> \<not> isObject l
        \<and> S [(''offset'', JStr ''2'')] = Inr [(''offset'', off)] \<and> \<not> isObject off
        \<and> \<not> js_truthy (own_prop q ''deep'') \<longrightarrow>
        parseFields S V
          [Field ''a'' [(''limit'', IntValue ''5'')]
             (Some [Field ''b'' [(''offset'', IntValue ''2'')] (Some [Field ''c'' [] None])])] None q
        = Inr ([''a.b.c''],
               AList.update ''deep''
                 (JObject [(''a'', JObject [(''b'', JObject [(''_offset'', off)]), (''_limit'', l)])]) q)"
    using plan_deep_nested[of S l off q V] by blast
next
  show "S [(''limit'', JStr ''5'')] = Inr [(''limit'', l)] \<and> \<not> isObject l
        \<and> S [(''offset'', JStr ''2'')] = Inr [(''offset'', off)] \<and> \<not> isObject off
        \<and> \<not> js_truthy (own_prop q ''deep'') \<longrightarrow>
        parseFields S V
          [Field ''a'' [(''limit'', IntValue ''5'')] (Some [Field ''b'' [] None]),
           Field ''a'' [(''offset'', IntValue ''2'')] (Some [Field ''c'' [] None])] None q
        = Inr ([''a.b'', ''a.c''],
               AList.update ''deep''
                 (JObject [(''a'', JObject [(''_limit'', l), (''_offset'', off)])]) q)"
    using plan_deep_same_path[of S l off q V] by blast
next
  show "S (parseArgs arguments V) = Inr sanitized
        \<and> (if js_truthy (own_prop q ''deep'') then own_prop q ''deep'' else JObject []) = JObject d
        \<and> (CHR ''.'' \<in> set path \<longrightarrow> path \<notin> fst ` set d) \<longrightarrow>
        (\<exists>q' d'. recordDeep S V path arguments q = Inr q'
           \<and> own_prop q' ''deep'' = JObject d'
           \<and> (\<forall>k. k \<noteq> ''deep'' \<longrightarrow> map_of q' k = map_of q k)
           \<and> (\<forall>k. k \<noteq> hd (splitDot path) \<longrightarrow> map_of d' k = map_of d k)
           \<and> isObject (baseGet (JObject d') (splitDot path))
           \<and> fst ` set (entries (baseGet (JObject d') (splitDot path)))
             = fst ` set (entries (baseGet (JObject d) (splitDot path)))
               \<union> (\<lambda>k. ''_'' @ k) ` fst ` set sanitized
           \<and> (\<forall>k. k \<notin> (\<lambda>k. ''_'' @ k) ` fst ` set sanitized \<longrightarrow>
                 map_of (entries (baseGet (JObject d') (splitDot path))) k
                 = map_of (entries (baseGet (JObject d) (splitDot path))) k)
           \<and> (\<forall>k v. (k, v) \<in> set sanitized \<and> distinct (map fst sanitized)
                       \<and> \<not> isObject v \<and> v \<noteq> JUndefined \<longrightarrow>
                 map_of (entries (baseGet (JObject d') (splitDot path))) (''_'' @ k) = Some v))"
    using recordDeep_stores[of S arguments V sanitized q d path] by blast
qed

theorem parseFields_plan_witness:
  "parseFields example_sanitizeQuery []
     [Field ''a'' [(''limit'', IntValue ''5'')] (Some [Field ''b'' [] None])] None []
   = Inr ([''a.b''], [(''deep'', JObject [(''a'', JObject [(''_limit'', JNum 5)])])])
   \<and> parseFields example_sanitizeQuery []
       [Field ''a'' [(''limit'', IntValue ''5'')]
          (Some [Field ''b'' [(''offset'', IntValue ''2'')] (Some [Field ''c'' [] None])])] None []
     = Inr ([''a.b.c''],
            [(''deep'', JObject [(''a'', JObject [(''b'', JObject [(''_offset'', JStr ''2'')]),
                                                   (''_limit'', JNum 5)])])])
   \<and> parseFields example_sanitizeQuery []
       [Field ''a'' [(''limit'', IntValue ''5'')] (Some [Field ''b'' [] None]),
        Field ''a'' [(''offset'', IntValue ''2'')] (Some [Field ''c'' [] None])] None []
     = Inr ([''a.b'', ''a.c''],
            [(''deep'', JObject [(''a'', JObject [(''_limit'', JNum 5), (''_offset'', JStr ''2'')])])])
   \<and> plan_paths_spec
       [Field ''a'' [(''limit'', IntValue ''5'')]
          (Some [Field ''b'' [(''offset'', IntValue ''2'')] (Some [Field ''c'' [] None])])] None
     = [''a.b.c'']
   \<and> recordDeepAll example_sanitizeQuery []
       [(''a.b'', [(''offset'', IntValue ''2'')]), (''a'', [(''limit'', IntValue ''5'')])] []
     = Inr [(''deep'', JObject [(''a'', JObject [(''b'', JObject [(''_offset'', JStr ''2'')]),
                                                  (''_limit'', JNum 5)])])]
   \<and> length ''a'' < length ''a.b.c'' \<and> take (length ''a'') ''a.b.c'' = ''a''
   \<and> (\<exists>q' d'. recordDeep example_sanitizeQuery [] ''a.b'' [(''offset'', IntValue ''2'')]
                  [(''deep'', JObject [(''a'', JObject [(''b'', JObject [(''_limit'', JNum 5)])])])]
                = Inr q'
         \<and> own_prop q' ''deep'' = JObject d'
         \<and> map_of (entries (baseGet (JObject d') [''a'', ''b''])) ''_limit'' = Some (JNum 5)
         \<and> map_of (entries (baseGet (JObject d') [''a'', ''b''])) ''_offset'' = Some (JStr ''2''))"
proof -
  let ?nested = "[Field ''a'' [(''limit'', IntValue ''5'')]
          (Some [Field ''b'' [(''offset'', IntValue ''2'')] (Some [Field ''c'' [] None])])]"
  let ?q = "[(''deep'', JObject [(''a'', JObject [(''b'', JObject [(''_limit'', JNum 5)])])])]"
  let ?d = "[(''a'', JObject [(''b'', JObject [(''_limit'', JNum 5)])])]"
  note T = parseFields_plan[where S = example_sanitizeQuery and V = "[]"]
  have s1: "example_sanitizeQuery [(''limit'', JStr ''5'')] = Inr [(''limit'', JNum 5)]
            \<and> \<not> isObject (JNum 5) \<and> \<not> js_truthy (own_prop [] ''deep'')"
    by (simp add: example_sanitizeQuery_def own_prop_def)
  have s2: "example_sanitizeQuery [(''limit'', JStr ''5'')] = Inr [(''limit'', JNum 5)]
            \<and> \<not> isObject (JNum 5)
            \<and> example_sanitizeQuery [(''offset'', JStr ''2'')] = Inr [(''offset'', JStr ''2'')]
            \<and> \<not> isObject (JStr ''2'') \<and> \<not> js_truthy (own_prop [] ''deep'')"
    by (simp add: example_sanitizeQuery_def own_prop_def)
  have s3: "example_sanitizeQuery (parseArgs [(''offset'', IntValue ''2'')] []) = Inr [(''offset'', JStr ''2'')]
            \<and> (if js_truthy (own_prop ?q ''deep'') then own_prop ?q ''deep'' else JObject []) = JObject ?d
            \<and> (CHR ''.'' \<in> set ''a.b'' \<longrightarrow> ''a.b'' \<notin> fst ` set ?d)"
    by (simp add: example_sanitizeQuery_def parseArgs_def own_prop_def)
  have first: "parseFields example_sanitizeQuery []
     [Field ''a'' [(''limit'', IntValue ''5'')] (Some [Field ''b'' [] None])] None []
     = Inr ([''a.b''], [(''deep'', JObject [(''a'', JObject [(''_limit'', JNum 5)])])])"
    using T[where q = "[]" and l = "JNum 5", THEN conjunct2, THEN conjunct2, THEN conjunct2,
        THEN conjunct2, THEN conjunct1, THEN mp, OF s1]
    by simp
  have nested: "parseFields example_sanitizeQuery [] ?nested None []
     = Inr ([''a.b.c''],
            [(''deep'', JObject [(''a'', JObject [(''b'', JObject [(''_offset'', JStr ''2'')]),
                                                   (''_limit'', JNum 5)])])])"
    using T[where q = "[]" and l = "JNum 5" and off = "JStr ''2''", THEN conjunct2, THEN conjunct2,
        THEN conjunct2, THEN conjunct2, THEN conjunct2, THEN conjunct1, THEN mp, OF s2]
    by simp
  have same: "parseFields example_sanitizeQuery []
       [Field ''a'' [(''limit'', IntValue ''5'')] (Some [Field ''b'' [] None]),
        Field ''a'' [(''offset'', IntValue ''2'')] (Some [Field ''c'' [] None])] None []
     = Inr ([''a.b'', ''a.c''],
            [(''deep'', JObject [(''a'', JObject [(''_limit'', JNum 5), (''_offset'', JStr ''2'')])])])"
    using T[where q = "[]" and l = "JNum 5" and off = "JStr ''2''", THEN conjunct2, THEN conjunct2,
        THEN conjunct2, THEN conjunct2, THEN conjunct2, THEN conjunct2, THEN conjunct1, THEN mp, OF s2]
    by simp
  note R = T[THEN conjunct2, THEN conjunct2, THEN conjunct1, THEN mp, OF nested]
  from R have paths: "plan_paths_spec ?nested None = [''a.b.c'']"
    by simp
  from R have recorded: "recordDeepAll example_sanitizeQuery []
       [(''a.b'', [(''offset'', IntValue ''2'')]), (''a'', [(''limit'', IntValue ''5'')])] []
     = Inr [(''deep'', JObject [(''a'', JObject [(''b'', JObject [(''_offset'', JStr ''2'')]),
                                                  (''_limit'', JNum 5)])])]"
    by (simp add: startsWith_def dotted_def)
  have longer: "length ''a'' < length ''a.b.c'' \<and> take (length ''a'') ''a.b.c'' = ''a''"
  proof -
    have "parseFields example_sanitizeQuery [] ?nested None [] = Inr ([''a.b.c''],
            [(''deep'', JObject [(''a'', JObject [(''b'', JObject [(''_offset'', JStr ''2'')]),
                                                   (''_limit'', JNum 5)])])])
          \<and> ''a'' \<noteq> [] \<and> ''a.b.c'' \<in> set [''a.b.c'']
          \<and> ''a'' = (case None of None \<Rightarrow> ''a'' | Some p \<Rightarrow> if p \<noteq> [] then p @ ''.'' @ ''a'' else ''a'')"
      using nested by simp
    from T[THEN conjunct2, THEN conjunct2, THEN conjunct2, THEN conjunct1, THEN mp, OF this]
    show ?thesis .
  qed
  note D = T[where q = ?q and arguments = "[(''offset'', IntValue ''2'')]"
          and sanitized = "[(''offset'', JStr ''2'')]" and d = ?d and path = "''a.b''",
        THEN conjunct2, THEN conjunct2, THEN conjunct2, THEN conjunct2, THEN conjunct2,
        THEN conjunct2, THEN conjunct2, THEN mp, OF s3]
  from D obtain q' d' where r: "recordDeep example_sanitizeQuery [] ''a.b'' [(''offset'', IntValue ''2'')] ?q = Inr q'"
    and dp: "own_prop q' ''deep'' = JObject d'"
    and other: "\<forall>k. k \<notin> (\<lambda>k. ''_'' @ k) ` fst ` set [(''offset'', JStr ''2'')] \<longrightarrow>
                 map_of (entries (baseGet (JObject d') (splitDot ''a.b''))) k
                 = map_of (entries (baseGet (JObject ?d) (splitDot ''a.b''))) k"
    and stores: "\<forall>k v. (k, v) \<in> set [(''offset'', JStr ''2'')] \<and> distinct (map fst [(''offset'', JStr ''2'')])
                       \<and> \<not> isObject v \<and> v \<noteq> JUndefined \<longrightarrow>
                 map_of (entries (baseGet (JObject d') (splitDot ''a.b''))) (''_'' @ k) = Some v"
    by (elim exE conjE)
  have sp: "splitDot ''a.b'' = [''a'', ''b'']" by simp
  have old: "map_of (entries (baseGet (JObject ?d) [''a'', ''b''])) ''_limit'' = Some (JNum 5)"
    by (simp add: own_prop_def)
  from other old have l: "map_of (entries (baseGet (JObject d') [''a'', ''b''])) ''_limit'' = Some (JNum 5)"
    unfolding sp by simp
  from stores have o: "map_of (entries (baseGet (JObject d') [''a'', ''b''])) ''_offset'' = Some (JStr ''2'')"
    unfolding sp by simp
  from r dp l o have "\<exists>q' d'. recordDeep example_sanitizeQuery [] ''a.b'' [(''offset'', IntValue ''2'')] ?q = Inr q'
         \<and> own_prop q' ''deep'' = JObject d'
         \<and> map_of (entries (baseGet (JObject d') [''a'', ''b''])) ''_limit'' = Some (JNum 5)
         \<and> map_of (entries (baseGet (JObject d') [''a'', ''b''])) ''_offset'' = Some (JStr ''2'')"
    by (intro exI conjI)
  with first nested same paths recorded longer[THEN conjunct1] longer[THEN conjunct2]
  show ?thesis by (intro conjI)
qed

subsection \<open>Reserved field names\<close>

lemma filterFields_keys:
  assumes "k \<in> fst ` set (filterFields getRelationType getGraphQLType schema entry)"
  shows "\<not> startsWith k ''__''"
proof -
  let ?init = "[(''_and'', Some (GraphQLList (GraphQLInputObjectType (fst entry @ ''_filter'') None))),
                (''_or'', Some (GraphQLList (GraphQLInputObjectType (fst entry @ ''_filter'') None)))]"
  have "fst ` set (filterFields getRelationType getGraphQLType schema entry)
        \<subseteq> fst ` set ?init \<union> {k \<in> field ` set (cfields (snd entry)). \<not> startsWith k ''__''}"
    unfolding filterFields_def by (rule filterFieldsLoop_keys)
  with assms have "k \<in> fst ` set ?init \<or> \<not> startsWith k ''__''" by blast
  then have "k = ''_and'' \<or> k = ''_or'' \<or> \<not> startsWith k ''__''" by simp
  then show ?thesis by (auto simp: startsWith_def)
qed

text \<open>
  C9. A field whose name starts with \<open>__\<close> is in no compiled type and in no plan. When
  the deferred field map of a collection's object type evaluates, none of its member names
  starts with \<open>__\<close>, and for every such field of the collection the warning naming field
  and collection was logged. No member name of a collection's filter input type starts
  with \<open>__\<close>. The planner gives the same paths and the same query for a selection and
  for the selection with every field named so removed, at every depth.
\<close>

theorem reserved_fields_not_exposed:
  "(objectFields getRelationType getGraphQLType this_schema schema c = Inr (fieldsObject, logged) \<longrightarrow>
      (\<forall>k \<in> fst ` set fieldsObject. \<not> startsWith k ''__'')
      \<and> (\<forall>f \<in> set (cfields c). startsWith (field f) ''__'' \<longrightarrow>
             FieldUnavailable (field f) (collection c) \<in> set logged))
   \<and> (\<forall>k \<in> fst ` set (filterFields getRelationType getGraphQLType schema entry).
         \<not> startsWith k ''__'')
   \<and> parseFields sanitizeQuery variableValues (strip_reserved selections) parent query
     = parseFields sanitizeQuery variableValues selections parent query"
proof (intro conjI)
  show "objectFields getRelationType getGraphQLType this_schema schema c = Inr (fieldsObject, logged) \<longrightarrow>
      (\<forall>k \<in> fst ` set fieldsObject. \<not> startsWith k ''__'')
      \<and> (\<forall>f \<in> set (cfields c). startsWith (field f) ''__'' \<longrightarrow>
             FieldUnavailable (field f) (collection c) \<in> set logged)"
  proof
    assume "objectFields getRelationType getGraphQLType this_schema schema c = Inr (fieldsObject, logged)"
    then have run: "objectFieldsLoop getRelationType getGraphQLType this_schema schema c (cfields c) ([], [])
                    = Inr (fieldsObject, logged)"
      by (simp add: objectFields_def)
    from objectFieldsLoop_keys[OF run]
    have "\<forall>k \<in> fst ` set fieldsObject. \<not> startsWith k ''__''" by auto
    moreover from objectFieldsLoop_logged[OF run]
    have "\<forall>f \<in> set (cfields c). startsWith (field f) ''__'' \<longrightarrow>
             FieldUnavailable (field f) (collection c) \<in> set logged" by auto
    ultimately show "(\<forall>k \<in> fst ` set fieldsObject. \<not> startsWith k ''__'')
      \<and> (\<forall>f \<in> set (cfields c). startsWith (field f) ''__'' \<longrightarrow>
             FieldUnavailable (field f) (collection c) \<in> set logged)" ..
  qed
next
  show "\<forall>k \<in> fst ` set (filterFields getRelationType getGraphQLType schema entry).
         \<not> startsWith k ''__''"
    using filterFields_keys by blast
next
  show "parseFields sanitizeQuery variableValues (strip_reserved selections) parent query
     = parseFields sanitizeQuery variableValues selections parent query"
    by (rule parseFields_strip_reserved)
qed

theorem reserved_fields_not_exposed_witness:
  "(case objectFields getRelationType_spec example_getGraphQLType example_schema example_schema
           example_authors of
      Inl e \<Rightarrow> False
    | Inr (fieldsObject, logged) \<Rightarrow>
        ''__secret'' \<notin> fst ` set fieldsObject
        \<and> FieldUnavailable ''__secret'' ''authors'' \<in> set logged)
   \<and> ''__secret'' \<notin> fst ` set (filterFields getRelationType_spec example_getGraphQLType
                                    example_schema (''authors'', example_authors))
   \<and> parseFields example_sanitizeQuery []
       [Field ''id'' [] None, Field ''__typename'' [] None,
        Field ''articles'' [] (Some [Field ''__typename'' [] None, Field ''title'' [] None])] None []
     = Inr ([''id'', ''articles.title''], [])"
proof -
  let ?secret = "\<lparr>field = ''__secret'', ftype = ''string'', fnote = None\<rparr>"
  note T = reserved_fields_not_exposed[where getRelationType = getRelationType_spec
      and getGraphQLType = example_getGraphQLType and schema = example_schema]
  have s: "startsWith ''__secret'' ''__''" by (simp add: startsWith_def)
  have i: "?secret \<in> set (cfields example_authors)" "field ?secret = ''__secret''"
    "collection example_authors = ''authors''"
    by (simp_all add: example_defs)
  note A = T[where this_schema = example_schema and c = example_authors,
      THEN conjunct1, THEN mp, OF example_objectFields_authors]
  from A[THEN conjunct1] s
  have a: "''__secret'' \<notin> fst ` set [(''id'', \<lparr>gtype = Some GraphQLID, gargs = None, description = None\<rparr>),
           (''name'', \<lparr>gtype = Some GraphQLString, gargs = None, description = Some ''Full name''\<rparr>),
           (''articles'',
            \<lparr>gtype = Some (GraphQLList (GraphQLObjectType ''articles'')),
             gargs = Some [(''sort'', Some (GraphQLList GraphQLString)),
                           (''limit'', Some GraphQLInt),
                           (''offset'', Some GraphQLInt),
                           (''page'', Some GraphQLInt),
                           (''search'', Some GraphQLString),
                           (''filter'', Some (GraphQLInputObjectType ''articles_filter'' None))],
             description = None\<rparr>)]"
    by blast
  from A[THEN conjunct2, rule_format, OF i(1)] s i(2,3)
  have b: "FieldUnavailable ''__secret'' ''authors'' \<in> set [FieldUnavailable ''__secret'' ''authors'']"
    by simp
  from T[where entry = "(''authors'', example_authors)", THEN conjunct2, THEN conjunct1] s
  have c: "''__secret'' \<notin> fst ` set (filterFields getRelationType_spec example_getGraphQLType
                                    example_schema (''authors'', example_authors))"
    by blast
  have "parseFields example_sanitizeQuery []
       (strip_reserved [Field ''id'' [] None, Field ''__typename'' [] None,
        Field ''articles'' [] (Some [Field ''__typename'' [] None, Field ''title'' [] None])]) None []
     = Inr ([''id'', ''articles.title''], [])"
    by (simp add: startsWith_def)
  with T[where sanitizeQuery = example_sanitizeQuery and variableValues = "[]" and parent = None
      and query = "[]"
      and selections = "[Field ''id'' [] None, Field ''__typename'' [] None,
        Field ''articles'' [] (Some [Field ''__typename'' [] None, Field ''title'' [] None])]",
      THEN conjunct2, THEN conjunct2]
  have d: "parseFields example_sanitizeQuery []
       [Field ''id'' [] None, Field ''__typename'' [] None,
        Field ''articles'' [] (Some [Field ''__typename'' [] None, Field ''title'' [] None])] None []
     = Inr ([''id'', ''articles.title''], [])"
    by simp
  from a b c d show ?thesis
    by (simp add: example_objectFields_authors)
qed

end
